theory Spec2Isabelle
  imports Complex_Main "HOL-Library.Sublist"
begin

section \<open>Python values used by the retrieval and ranking core\<close>

text \<open>
  The source is \<^verbatim>\<open>chatbot_backend/app.py\<close>. Python exceptions are values of
  \<open>py_error\<close>; a function that can raise returns \<open>py_error + 'a\<close> with \<open>Inl\<close> the
  exception. Python floats are modelled by \<open>real\<close> (exact arithmetic, no rounding).
  Strings are byte lists; \<open>lower\<close> folds the ASCII letters only.
\<close>

datatype py_error = OverflowError | AttributeError | TypeError | IndexError | OtherError

text \<open>
  A dictionary entry read with \<^verbatim>\<open>d.get(key, default)\<close>: the key can be missing, hold
  \<^verbatim>\<open>None\<close> (an SQL NULL) or hold a value.
\<close>

datatype 'a field = Missing | Null | Val 'a

subsection \<open>Strings\<close>

definition upper_letters :: string where
  "upper_letters = ''ABCDEFGHIJKLMNOPQRSTUVWXYZ''"

definition lower_letters :: string where
  "lower_letters = ''abcdefghijklmnopqrstuvwxyz''"

definition lower_char :: "char \<Rightarrow> char" where
  "lower_char c = (case map_of (zip upper_letters lower_letters) c of Some l \<Rightarrow> l | None \<Rightarrow> c)"

definition lower :: "string \<Rightarrow> string" where
  "lower s = map lower_char s"

text \<open>\<^verbatim>\<open>sub in s\<close> on strings: \<open>sub\<close> occurs in \<open>s\<close> as a contiguous substring.\<close>

fun py_in :: "string \<Rightarrow> string \<Rightarrow> bool" where
  "py_in sub [] = (sub = [])"
| "py_in sub (c # cs) = (prefix sub (c # cs) \<or> py_in sub cs)"

definition is_space :: "char \<Rightarrow> bool" where
  "is_space c = (let n = (of_char c :: nat) in (9 \<le> n \<and> n \<le> 13) \<or> (28 \<le> n \<and> n \<le> 32))"

definition strip :: "string \<Rightarrow> string" where
  "strip s = rev (dropWhile is_space (rev (dropWhile is_space s)))"

text \<open>\<^verbatim>\<open>f"{x}"\<close> of a looked-up text field with default \<^verbatim>\<open>''\<close>.\<close>

fun fmt_field :: "string field \<Rightarrow> string" where
  "fmt_field Missing = []"
| "fmt_field Null = ''None''"
| "fmt_field (Val s) = s"

text \<open>\<^verbatim>\<open>xs[:n]\<close>: a negative bound counts from the end.\<close>

definition py_slice_to :: "int \<Rightarrow> 'a list \<Rightarrow> 'a list" where
  "py_slice_to n xs = (if 0 \<le> n then take (nat n) xs else take (length xs - nat (- n)) xs)"

section \<open>Order status derivation (\<^verbatim>\<open>get_order_by_id\<close>)\<close>

text \<open>
  A naive \<^verbatim>\<open>datetime\<close> is the number of microseconds since 0001-01-01 00:00:00; the
  largest one is 9999-12-31 23:59:59.999999. A \<^verbatim>\<open>timedelta\<close> is a number of
  microseconds, and its \<^verbatim>\<open>.days\<close> attribute is the floor of the division by one day.
\<close>

type_synonym datetime = int
type_synonym timedelta = int

definition datetime_max :: datetime where
  "datetime_max = 3652059 * 86400000000 - 1"

definition valid_datetime :: "datetime \<Rightarrow> bool" where
  "valid_datetime d = (0 \<le> d \<and> d \<le> datetime_max)"

definition timedelta_days :: "int \<Rightarrow> timedelta" where
  "timedelta_days n = n * 86400000000"

definition days :: "timedelta \<Rightarrow> int" where
  "days delta = delta div 86400000000"

definition datetime_add :: "datetime \<Rightarrow> timedelta \<Rightarrow> py_error + datetime" where
  "datetime_add d delta = (if valid_datetime (d + delta) then Inr (d + delta) else Inl OverflowError)"

type_synonym row = "(string \<times> string) list"

text \<open>
  The joined order row. \<open>order_date\<close>, \<open>shipping_date\<close> and \<open>tracking_number\<close> are columns
  (\<open>None\<close> is NULL); the other named fields are keys the function adds (\<open>None\<close>: not set).
  Every other column is in the record's extension.
\<close>

record order =
  order_date :: "datetime option"
  shipping_date :: "datetime option"
  tracking_number :: "string option"
  items :: "row list option"
  payment :: "row option option"
  has_tracking :: "bool option"
  tracking_status :: "string option"
  tracking_message :: "string option"
  estimated_delivery :: "string option"
  estimated_shipping :: "string option"

text \<open>
  Lines 1652-1704. \<open>strftime fmt d\<close> is \<^verbatim>\<open>d.strftime(fmt)\<close>, \<open>now\<close> is
  \<^verbatim>\<open>datetime.now()\<close>.
\<close>

definition set_tracking_number :: "(string \<Rightarrow> datetime \<Rightarrow> string) \<Rightarrow> string \<Rightarrow> datetime \<Rightarrow>
    'a order_scheme \<Rightarrow> 'a order_scheme" where
  "set_tracking_number strftime clean_order_id od order =
     (case tracking_number order of
        Some t \<Rightarrow>
          if t \<noteq> [] then order\<lparr>tracking_number := Some t, has_tracking := Some True\<rparr>
          else order\<lparr>tracking_number := Some (''TRK'' @ clean_order_id @ strftime ''%m%d'' od),
                     has_tracking := Some False\<rparr>
      | None \<Rightarrow>
          order\<lparr>tracking_number := Some (''TRK'' @ clean_order_id @ strftime ''%m%d'' od),
                has_tracking := Some False\<rparr>)"

definition shipped_status :: "(string \<Rightarrow> datetime \<Rightarrow> string) \<Rightarrow> datetime \<Rightarrow> datetime \<Rightarrow>
    'a order_scheme \<Rightarrow> py_error + 'a order_scheme" where
  "shipped_status strftime now sd order =
     (let days_since_shipping = days (now - sd) in
      if days_since_shipping \<ge> 5 then
        (case datetime_add sd (timedelta_days 5) of
           Inl e \<Rightarrow> Inl e
         | Inr delivered \<Rightarrow>
             Inr (order\<lparr>tracking_status := Some ''Delivered'',
                        tracking_message := Some (''Your order was delivered on '' @
                          strftime ''%B %d, %Y'' delivered @ ''.'')\<rparr>))
      else if days_since_shipping \<ge> 1 then
        (case datetime_add sd (timedelta_days 5) of
           Inl e \<Rightarrow> Inl e
         | Inr estimated \<Rightarrow>
             Inr (order\<lparr>tracking_status := Some ''In Transit'',
                        tracking_message := Some (''Your order is on its way! Expected delivery: '' @
                          strftime ''%B %d, %Y'' estimated),
                        estimated_delivery := Some (strftime ''%Y-%m-%d'' estimated)\<rparr>))
      else
        Inr (order\<lparr>tracking_status := Some ''Shipped'',
                   tracking_message := Some (''Your order shipped on '' @
                     strftime ''%B %d, %Y'' sd @ '' and is being processed for delivery.'')\<rparr>))"

definition unshipped_status :: "(string \<Rightarrow> datetime \<Rightarrow> string) \<Rightarrow> datetime \<Rightarrow> datetime \<Rightarrow>
    'a order_scheme \<Rightarrow> py_error + 'a order_scheme" where
  "unshipped_status strftime now od order =
     (let days_since_order = days (now - od) in
      if days_since_order = 0 then
        Inr (order\<lparr>tracking_status := Some ''Order Confirmed'',
                   tracking_message := Some
                     ''Your order has been confirmed and payment processed. We're preparing your items.''\<rparr>)
      else if days_since_order = 1 then
        Inr (order\<lparr>tracking_status := Some ''Processing'',
                   tracking_message := Some
                     ''Your order is being processed and will be shipped within 24 hours.''\<rparr>)
      else if days_since_order \<le> 3 then
        (case datetime_add od (timedelta_days 3) of
           Inl e \<Rightarrow> Inl e
         | Inr estimated \<Rightarrow>
             Inr (order\<lparr>tracking_status := Some ''Ready to Ship'',
                        tracking_message := Some
                          ''Your order is packed and ready to ship. You'll receive tracking info soon.'',
                        estimated_shipping := Some (strftime ''%Y-%m-%d'' estimated)\<rparr>))
      else
        (case datetime_add od (timedelta_days 7) of
           Inl e \<Rightarrow> Inl e
         | Inr estimated \<Rightarrow>
             Inr (order\<lparr>tracking_status := Some ''Shipped'',
                        tracking_message := Some
                          ''Your order has been shipped. Delivery expected within 3-5 business days.'',
                        estimated_delivery := Some (strftime ''%Y-%m-%d'' estimated)\<rparr>)))"

definition tracking_status_logic :: "(string \<Rightarrow> datetime \<Rightarrow> string) \<Rightarrow> datetime \<Rightarrow> string \<Rightarrow>
    'a order_scheme \<Rightarrow> py_error + 'a order_scheme" where
  "tracking_status_logic strftime now clean_order_id order =
     (case order_date order of
        None \<Rightarrow> Inr order
      | Some od \<Rightarrow>
          (let order1 = set_tracking_number strftime clean_order_id od order in
           case shipping_date order of
             Some sd \<Rightarrow> shipped_status strftime now sd order1
           | None \<Rightarrow> unshipped_status strftime now od order1))"

text \<open>
  The database side of \<^verbatim>\<open>get_order_by_id\<close>: each query either raises
  \<^verbatim>\<open>mysql.connector.Error\<close> or returns its rows. \<open>None\<close> for the connection is
  \<^verbatim>\<open>mysql_db\<close> being unset.
\<close>

datatype 'a query = QueryError | Fetched 'a

record 'a database =
  order_query :: "string \<Rightarrow> 'a order_scheme option query"
  items_query :: "string \<Rightarrow> row list query"
  payment_query :: "string \<Rightarrow> row option query"

definition get_order_by_id :: "(string \<Rightarrow> datetime \<Rightarrow> string) \<Rightarrow> datetime \<Rightarrow> 'a database option \<Rightarrow>
    string \<Rightarrow> py_error + 'a order_scheme option" where
  "get_order_by_id strftime now mysql_db order_id =
     (case mysql_db of
        None \<Rightarrow> Inr None
      | Some db \<Rightarrow>
          (let clean_order_id = strip (filter (\<lambda>c. c \<noteq> CHR ''#'') order_id) in
           case order_query db clean_order_id of
             QueryError \<Rightarrow> Inr None
           | Fetched None \<Rightarrow> Inr None
           | Fetched (Some order) \<Rightarrow>
               (case items_query db clean_order_id of
                  QueryError \<Rightarrow> Inr None
                | Fetched its \<Rightarrow>
                    (case payment_query db clean_order_id of
                       QueryError \<Rightarrow> Inr None
                     | Fetched pay \<Rightarrow>
                         (case tracking_status_logic strftime now clean_order_id
                                 (order\<lparr>items := Some its, payment := Some pay\<rparr>) of
                            Inl e \<Rightarrow> Inl e
                          | Inr order' \<Rightarrow> Inr (Some order'))))))"

text \<open>A formatter for the examples: it writes the format and the microsecond count's sign.\<close>

definition example_strftime :: "string \<Rightarrow> datetime \<Rightarrow> string" where
  "example_strftime fmt d = fmt @ (if d < 0 then ''-'' else ''+'')"

text \<open>Example orders: placed at day 738000, unshipped, shipped a day later, and shipped ten days before placement.\<close>

definition example_order :: order where
  "example_order = \<lparr>order_date = Some (timedelta_days 738000), shipping_date = None,
     tracking_number = None, items = None, payment = None, has_tracking = None,
     tracking_status = None, tracking_message = None, estimated_delivery = None,
     estimated_shipping = None\<rparr>"

definition in_transit_order :: order where
  "in_transit_order = example_order\<lparr>shipping_date := Some (timedelta_days 738001)\<rparr>"

definition anomalous_order :: order where
  "anomalous_order = example_order\<lparr>shipping_date := Some (timedelta_days 737990)\<rparr>"

definition example_database :: "unit database" where
  "example_database = \<lparr>order_query = (\<lambda>k. if k = ''17'' then Fetched (Some (example_order\<lparr>order_date := None\<rparr>)) else Fetched None),
     items_query = (\<lambda>k. Fetched []), payment_query = (\<lambda>k. Fetched None)\<rparr>"

section \<open>Image search engine (\<^verbatim>\<open>ImageSearchEngine\<close>)\<close>

text \<open>
  A product row. The text columns, the ranking and the stock are read with
  \<^verbatim>\<open>product.get\<close>; the last five fields are keys that \<^verbatim>\<open>find_similar_products\<close>
  adds (\<open>None\<close>: not set).
\<close>

record product =
  product_id :: int
  product_name :: "string field"
  product_discription :: "string field"
  product_type :: "string field"
  product_ranking :: "real field"
  stock_quantity :: "int field"
  similarity_score :: "real option"
  visual_match :: "bool option"
  match_reason :: "string option"
  product_link :: "string option"
  detected_category :: "string option"

text \<open>\<^verbatim>\<open>self.category_mapping\<close>, in insertion order.\<close>

definition category_mapping :: "(string \<times> string list) list" where
  "category_mapping =
    [(''shirt'', [''shirt'', ''top'', ''blouse'', ''t-shirt'', ''polo'', ''tank'', ''vest'']),
     (''bag'', [''bag'', ''purse'', ''handbag'', ''backpack'', ''tote'', ''clutch'']),
     (''watch'', [''watch'', ''timepiece'', ''smartwatch'']),
     (''shoes'', [''shoes'', ''sneakers'', ''boots'', ''sandals'', ''heels'']),
     (''jeans'', [''jeans'', ''pants'', ''trouser'', ''denim'']),
     (''dress'', [''dress'', ''gown'', ''frock'']),
     (''jacket'', [''jacket'', ''coat'', ''blazer'', ''hoodie'']),
     (''accessories'', [''accessories'', ''jewelry'', ''necklace'', ''bracelet''])]"

subsection \<open>\<^verbatim>\<open>detect_product_category\<close>\<close>

definition count_keywords :: "string \<Rightarrow> string list \<Rightarrow> nat" where
  "count_keywords description_lower keywords =
     length (filter (\<lambda>keyword. py_in keyword description_lower) keywords)"

definition category_scores :: "string \<Rightarrow> (string \<times> nat) list" where
  "category_scores description_lower =
     filter (\<lambda>(category, score). score > 0)
       (map (\<lambda>(category, keywords). (category, count_keywords description_lower keywords))
          category_mapping)"

text \<open>\<^verbatim>\<open>max(iterable, key=...)\<close>: a later element replaces the best one only when its key
  is strictly greater.\<close>

fun max_by :: "('a \<Rightarrow> nat) \<Rightarrow> 'a \<Rightarrow> 'a list \<Rightarrow> 'a" where
  "max_by key best [] = best"
| "max_by key best (x # xs) = max_by key (if key best < key x then x else best) xs"

definition detect_product_category :: "string \<Rightarrow> string" where
  "detect_product_category description =
     (let description_lower = lower description in
      case category_scores description_lower of
        first # rest \<Rightarrow> fst (max_by snd first rest)
      | [] \<Rightarrow>
          if list_ex (\<lambda>word. py_in word description_lower)
               [''clothing'', ''wear'', ''garment'', ''outfit'']
          then ''clothing'' else ''general'')"

subsection \<open>\<^verbatim>\<open>extract_keywords\<close>\<close>

text \<open>
  The elements of the \<^verbatim>\<open>fashion_keywords\<close> set literal in the order written, each
  once (the literal repeats denim, formal, casual and belt). The set's iteration order
  depends on the string hashes of the process, so the functions below take the set as the
  list \<open>fashion_keywords\<close> of its elements in iteration order.
\<close>

definition fashion_keywords_set :: "string list" where
  "fashion_keywords_set =
    [''shirt'', ''dress'', ''pants'', ''jeans'', ''jacket'', ''coat'', ''sweater'', ''hoodie'',
     ''skirt'', ''shorts'', ''top'', ''blouse'', ''cardigan'', ''blazer'', ''vest'', ''tshirt'',
     ''polo'', ''tank'', ''crop'', ''maxi'', ''mini'', ''midi'', ''formal'', ''casual'',
     ''uniform'', ''suit'', ''trouser'', ''leggings'', ''jogger'', ''sweatshirt'',
     ''red'', ''blue'', ''green'', ''yellow'', ''black'', ''white'', ''gray'', ''grey'', ''brown'',
     ''pink'', ''purple'', ''orange'', ''navy'', ''beige'', ''khaki'', ''denim'', ''cream'',
     ''maroon'', ''burgundy'', ''teal'', ''turquoise'', ''lime'', ''olive'', ''gold'', ''silver'',
     ''cotton'', ''wool'', ''silk'', ''linen'', ''polyester'', ''leather'', ''velvet'',
     ''satin'', ''chiffon'', ''jersey'', ''canvas'', ''corduroy'', ''fleece'',
     ''striped'', ''floral'', ''solid'', ''plaid'', ''checkered'', ''polka'', ''geometric'',
     ''printed'', ''embroidered'', ''lace'', ''paisley'', ''animal'', ''abstract'',
     ''long'', ''short'', ''sleeve'', ''sleeveless'', ''collar'', ''button'', ''zip'', ''zipper'',
     ''pocket'', ''hood'', ''belt'', ''tie'', ''bow'', ''ruffle'', ''pleated'', ''fitted'',
     ''loose'', ''tight'', ''slim'', ''regular'', ''oversized'',
     ''men'', ''women'', ''unisex'', ''boy'', ''girl'', ''adult'', ''kids'', ''child'',
     ''sport'', ''athletic'', ''business'', ''party'', ''wedding'',
     ''hat'', ''cap'', ''scarf'', ''gloves'', ''bag'', ''shoes'', ''sneakers'',
     ''boots'', ''sandals'', ''heels'', ''flats'', ''watch'', ''jewelry'', ''necklace'',
     ''vintage'', ''modern'', ''classic'', ''trendy'', ''bohemian'', ''punk'', ''gothic'',
     ''preppy'', ''streetwear'', ''minimalist'', ''elegant'', ''chic'']"

definition is_word_char :: "char \<Rightarrow> bool" where
  "is_word_char c =
     (c \<in> set ''abcdefghijklmnopqrstuvwxyzABCDEFGHIJKLMNOPQRSTUVWXYZ0123456789_'')"

text \<open>\<^verbatim>\<open>re.findall(r'\b\w+\b', s)\<close>: the maximal runs of word characters, left to right.
  \<open>cur\<close> is the run being read.\<close>

fun find_words :: "string \<Rightarrow> string \<Rightarrow> string list" where
  "find_words cur [] = (if cur = [] then [] else [cur])"
| "find_words cur (c # cs) =
     (if is_word_char c then find_words (cur @ [c]) cs
      else (if cur = [] then [] else [cur]) @ find_words [] cs)"

definition extract_keywords :: "string list \<Rightarrow> string \<Rightarrow> string list" where
  "extract_keywords fashion_keywords description =
     (let description_lower = lower description;
          found1 = filter (\<lambda>keyword. py_in keyword description_lower) fashion_keywords;
          ws = find_words [] description_lower;
          found2 = fold (\<lambda>word found.
                     if word \<in> set fashion_keywords \<and> word \<notin> set found
                     then found @ [word] else found) ws found1;
          found3 = fold (\<lambda>word found.
                     if length word > 3 \<and> word \<notin> set found \<and>
                        list_ex (\<lambda>fashion_word. py_in fashion_word word)
                          [''wear'', ''cloth'', ''dress'', ''style'']
                     then found @ [word] else found) ws found2
      in take 8 found3)"

subsection \<open>The four signals and \<^verbatim>\<open>calculate_advanced_similarity\<close>\<close>

text \<open>
  \<open>embedding_similarity a b\<close> is the cosine similarity of the embeddings of the two texts
  (\<^verbatim>\<open>self.embedder.encode\<close> and \<^verbatim>\<open>cosine_similarity\<close>), \<open>None\<close> when one of
  the calls raises.
\<close>

definition calculate_semantic_similarity :: "(string \<Rightarrow> string \<Rightarrow> real option) \<Rightarrow> string \<Rightarrow>
    'a product_scheme \<Rightarrow> real" where
  "calculate_semantic_similarity embedding_similarity description product =
     (let product_text = fmt_field (product_name product) @ '' '' @
            fmt_field (product_discription product) @ '' '' @ fmt_field (product_type product)
      in if strip product_text = [] then 0
         else (case embedding_similarity description product_text of
                 None \<Rightarrow> 0
               | Some similarity \<Rightarrow> max 0 similarity))"

definition calculate_keyword_similarity :: "string list \<Rightarrow> string \<Rightarrow> 'a product_scheme \<Rightarrow> real" where
  "calculate_keyword_similarity fashion_keywords description product =
     (let keywords = extract_keywords fashion_keywords description in
      if keywords = [] then 0
      else
        (let product_text = lower (fmt_field (product_name product) @ '' '' @
               fmt_field (product_discription product) @ '' '' @ fmt_field (product_type product));
             matched_keywords = length (filter (\<lambda>keyword. py_in (lower keyword) product_text) keywords)
         in real matched_keywords / real (length keywords)))"

definition category_synonyms :: "(string \<times> string list) list" where
  "category_synonyms =
    [(''shirt'', [''top'', ''blouse'', ''tshirt'', ''polo'', ''dress shirt'']),
     (''dress'', [''gown'', ''frock'', ''maxi'', ''mini'', ''midi'']),
     (''pants'', [''trousers'', ''jeans'', ''leggings'', ''slacks'']),
     (''jacket'', [''coat'', ''blazer'', ''cardigan'', ''hoodie'']),
     (''shoes'', [''footwear'', ''sneakers'', ''boots'', ''sandals'', ''heels'']),
     (''bag'', [''purse'', ''handbag'', ''backpack'', ''tote'']),
     (''hat'', [''cap'', ''beanie'', ''fedora''])]"

text \<open>The loop over \<^verbatim>\<open>category_synonyms.items()\<close>: \<open>True\<close> when it returns 0.8.\<close>

fun synonym_loop :: "string \<Rightarrow> string \<Rightarrow> (string \<times> string list) list \<Rightarrow> bool" where
  "synonym_loop ptype description_lower [] = False"
| "synonym_loop ptype description_lower ((category, synonyms) # rest) =
     (if ptype = category then
        (if list_ex (\<lambda>synonym. py_in synonym description_lower) synonyms then True
         else synonym_loop ptype description_lower rest)
      else if ptype \<in> set synonyms \<and> py_in category description_lower then True
      else synonym_loop ptype description_lower rest)"

text \<open>\<^verbatim>\<open>product.get('product_type', '').lower()\<close>: \<^verbatim>\<open>None\<close> has no \<^verbatim>\<open>lower\<close>.\<close>

fun get_lower :: "string field \<Rightarrow> py_error + string" where
  "get_lower Missing = Inr []"
| "get_lower Null = Inl AttributeError"
| "get_lower (Val s) = Inr (lower s)"

definition calculate_category_similarity :: "string \<Rightarrow> 'a product_scheme \<Rightarrow> real" where
  "calculate_category_similarity description product =
     (case get_lower (product_type product) of
        Inl e \<Rightarrow> 0
      | Inr ptype \<Rightarrow>
          (let description_lower = lower description in
           if ptype = [] then 0
           else if py_in ptype description_lower then 1
           else if synonym_loop ptype description_lower category_synonyms then 0.8
           else 0))"

definition colors :: "string list" where
  "colors = [''red'', ''blue'', ''green'', ''yellow'', ''black'', ''white'', ''gray'', ''brown'',
     ''pink'', ''purple'', ''orange'', ''navy'', ''beige'', ''khaki'']"

definition patterns :: "string list" where
  "patterns = [''striped'', ''floral'', ''solid'', ''plaid'', ''checkered'', ''polka'', ''printed'']"

definition styles :: "string list" where
  "styles = [''casual'', ''formal'', ''vintage'', ''modern'', ''elegant'', ''sporty'']"

definition count_matches :: "string list \<Rightarrow> string \<Rightarrow> string \<Rightarrow> nat" where
  "count_matches vocabulary description_lower product_text =
     length (filter (\<lambda>w. py_in w description_lower \<and> py_in w product_text) vocabulary)"

definition calculate_text_visual_similarity :: "string \<Rightarrow> 'a product_scheme \<Rightarrow> real" where
  "calculate_text_visual_similarity description product =
     (let description_lower = lower description;
          product_text = lower (fmt_field (product_name product) @ '' '' @
            fmt_field (product_discription product));
          color_matches = count_matches colors description_lower product_text;
          pattern_matches = count_matches patterns description_lower product_text;
          style_matches = count_matches styles description_lower product_text;
          total_visual_features = length colors + length patterns + length styles;
          total_matches = color_matches + pattern_matches + style_matches
      in if total_visual_features > 0 then real total_matches / real total_visual_features else 0)"

definition calculate_advanced_similarity :: "(string \<Rightarrow> string \<Rightarrow> real option) \<Rightarrow> string list \<Rightarrow>
    string \<Rightarrow> 'a product_scheme \<Rightarrow> real" where
  "calculate_advanced_similarity embedding_similarity fashion_keywords description product =
     (let total_score = 0;
          semantic_score = calculate_semantic_similarity embedding_similarity description product;
          total_score = total_score + semantic_score * 0.4;
          keyword_score = calculate_keyword_similarity fashion_keywords description product;
          total_score = total_score + keyword_score * 0.3;
          category_score = calculate_category_similarity description product;
          total_score = total_score + category_score * 0.2;
          visual_score = calculate_text_visual_similarity description product;
          total_score = total_score + visual_score * 0.1
      in min total_score 1)"

definition example_product :: product where
  "example_product = \<lparr>product_id = 1, product_name = Val ''Red Cotton Shirt'',
     product_discription = Val ''A casual shirt'', product_type = Val ''Shirt'',
     product_ranking = Val 4, stock_quantity = Null, similarity_score = None,
     visual_match = None, match_reason = None, product_link = None, detected_category = None\<rparr>"

subsection \<open>\<^verbatim>\<open>calculate_visual_similarity\<close> and \<^verbatim>\<open>find_similar_products\<close>\<close>

text \<open>
  What the engine holds besides the tables above: the image model
  (\<^verbatim>\<open>extract_image_features\<close>, \<open>None\<close> after a caught failure), scikit-learn's
  \<^verbatim>\<open>cosine_similarity\<close> (\<open>None\<close> when it raises) and the formatting
  \<^verbatim>\<open>f"{similarity:.1%}"\<close>.
\<close>

record engine =
  extract_image_features :: "string \<Rightarrow> real list option"
  cosine_similarity :: "real list \<Rightarrow> real list \<Rightarrow> real option"
  format_percent :: "real \<Rightarrow> string"

text \<open>
  The loop over \<^verbatim>\<open>product_images.items()\<close>; an exception leaves the loop with the
  similarities computed so far.
\<close>

fun similarity_loop :: "engine \<Rightarrow> real list \<Rightarrow> (int \<times> string) list \<Rightarrow> (int \<rightharpoonup> real) \<Rightarrow>
    (int \<rightharpoonup> real)" where
  "similarity_loop eng uploaded_features [] similarities = similarities"
| "similarity_loop eng uploaded_features ((pid, image_bytes) # rest) similarities =
     (case extract_image_features eng image_bytes of
        None \<Rightarrow> similarity_loop eng uploaded_features rest similarities
      | Some product_features \<Rightarrow>
          if product_features = [] then similarity_loop eng uploaded_features rest similarities
          else
            (case cosine_similarity eng uploaded_features product_features of
               None \<Rightarrow> similarities
             | Some similarity \<Rightarrow>
                 similarity_loop eng uploaded_features rest (similarities(pid \<mapsto> similarity))))"

definition calculate_visual_similarity :: "engine \<Rightarrow> string \<Rightarrow> (int \<times> string) list \<Rightarrow>
    (int \<rightharpoonup> real)" where
  "calculate_visual_similarity eng uploaded_image_bytes product_images =
     (case extract_image_features eng uploaded_image_bytes of
        None \<Rightarrow> Map.empty
      | Some uploaded_features \<Rightarrow>
          if uploaded_features = [] then Map.empty
          else similarity_loop eng uploaded_features product_images Map.empty)"

text \<open>
  The catalog queries of \<^verbatim>\<open>find_similar_products\<close>: the products that have an image
  (ordered by id), the products of the given types and the best ranked products, the last
  two with their \<^verbatim>\<open>LIMIT\<close>; and \<^verbatim>\<open>get_product_images_from_db\<close>, which
  returns a dictionary, empty after a failure.
\<close>

record 'a product_db =
  image_products_query :: "'a product_scheme list query"
  get_product_images_from_db :: "int list \<Rightarrow> (int \<times> string) list"
  category_query :: "string list \<Rightarrow> int \<Rightarrow> 'a product_scheme list query"
  ranking_query :: "int \<Rightarrow> 'a product_scheme list query"

text \<open>\<^verbatim>\<open>str\<close> of an integer, for the product link.\<close>

fun digits :: "nat \<Rightarrow> string" where
  "digits n = (if n < 10 then [''0123456789'' ! n] else digits (n div 10) @ [''0123456789'' ! (n mod 10)])"

declare digits.simps [simp del]

definition str_int :: "int \<Rightarrow> string" where
  "str_int i = (if i < 0 then ''-'' @ digits (nat (- i)) else digits (nat i))"

definition get_similarity :: "(int \<rightharpoonup> real) \<Rightarrow> int \<Rightarrow> real" where
  "get_similarity similarities pid = (case similarities pid of Some s \<Rightarrow> s | None \<Rightarrow> 0)"

text \<open>
  The loop over \<^verbatim>\<open>all_products\<close> (lines 2353-2370). Python updates the rows in place,
  so the result holds the rows as the loop leaves them, the visually matched products and
  the category matches, each in the order of the rows, and the exception that ended the
  loop, if any: a row whose product type is NULL raises once its score and flag are set,
  and the rows after it are not reached.
\<close>

fun match_loop :: "engine \<Rightarrow> (int \<rightharpoonup> real) \<Rightarrow> string \<Rightarrow> 'a product_scheme list \<Rightarrow>
    'a product_scheme list \<times> 'a product_scheme list \<times> 'a product_scheme list \<times> py_error option" where
  "match_loop eng similarities category [] = ([], [], [], None)"
| "match_loop eng similarities category (product # rest) =
     (let pid = product_id product;
          similarity = get_similarity similarities pid;
          product1 = product\<lparr>similarity_score := Some similarity,
                            visual_match := Some (similarity > 0.3)\<rparr>
      in case get_lower (product_type product) of
           Inl e \<Rightarrow> (product1 # rest, [], [], Some e)
         | Inr product_category \<Rightarrow>
             (let category_match = (py_in category product_category \<or> py_in product_category category);
                  product2 =
                    (if similarity > 0.3 then
                       product1\<lparr>match_reason := Some (''Visual similarity: '' @
                         format_percent eng similarity)\<rparr>
                     else if category_match then
                       product1\<lparr>match_reason := Some (''Category match: '' @ category)\<rparr>
                     else product1)
              in case match_loop eng similarities category rest of
                   (rows, matched_products, category_products, raised) \<Rightarrow>
                     (product2 # rows,
                      (if similarity > 0.3 then product2 # matched_products else matched_products),
                      (if \<not> similarity > 0.3 \<and> category_match then product2 # category_products
                       else category_products),
                      raised)))"

definition score_of :: "'a product_scheme \<Rightarrow> real" where
  "score_of product = (case similarity_score product of Some s \<Rightarrow> s | None \<Rightarrow> 0)"

text \<open>\<^verbatim>\<open>x.get('product_ranking', 0)\<close>, where a NULL ranking is 0 here and is refused by the
  sort below.\<close>

definition ranking_of :: "'a product_scheme \<Rightarrow> real" where
  "ranking_of product = (case product_ranking product of Val r \<Rightarrow> r | _ \<Rightarrow> 0)"

text \<open>
  \<^verbatim>\<open>list.sort(key=..., reverse=True)\<close> is stable. Sorting two or more rows compares
  every key, and comparing \<^verbatim>\<open>None\<close> raises \<^verbatim>\<open>TypeError\<close>.
\<close>

definition sort_by_similarity :: "'a product_scheme list \<Rightarrow> 'a product_scheme list" where
  "sort_by_similarity ps = sort_key (\<lambda>p. - score_of p) ps"

definition sort_by_ranking :: "'a product_scheme list \<Rightarrow> py_error + 'a product_scheme list" where
  "sort_by_ranking ps =
     (if 2 \<le> length ps \<and> list_ex (\<lambda>p. product_ranking p = Null) ps then Inl TypeError
      else Inr (sort_key (\<lambda>p. - ranking_of p) ps))"

definition default_stock :: "int field \<Rightarrow> int field" where
  "default_stock q = (case q of Val n \<Rightarrow> Val n | _ \<Rightarrow> Val 10)"

definition display :: "string \<Rightarrow> 'a product_scheme \<Rightarrow> 'a product_scheme" where
  "display category product =
     product\<lparr>product_link := Some (''/sproductpage.html?id='' @ str_int (product_id product)),
              stock_quantity := default_stock (stock_quantity product),
              detected_category := Some category\<rparr>"

text \<open>Lines 2345-2392, entered when the products with images and their images are there.\<close>

definition visual_search :: "engine \<Rightarrow> (int \<rightharpoonup> real) \<Rightarrow> string \<Rightarrow> int \<Rightarrow>
    'a product_scheme list \<Rightarrow> py_error + 'a product_scheme list" where
  "visual_search eng similarities category limit all_products =
     (case match_loop eng similarities category all_products of
        (rows, matched_products, category_products, Some e) \<Rightarrow> Inl e
      | (rows, matched_products, category_products, None) \<Rightarrow>
          (case sort_by_ranking category_products of
             Inl e \<Rightarrow> Inl e
           | Inr category_sorted \<Rightarrow>
               (let final_products =
                      take 3 (sort_by_similarity matched_products) @ take 3 category_sorted;
                    final_products = py_slice_to limit final_products
                in Inr (map (display category) final_products))))"

text \<open>The search by category or by ranking (lines 2394-2431).\<close>

definition fallback_display :: "string \<Rightarrow> 'a product_scheme \<Rightarrow> 'a product_scheme" where
  "fallback_display category product =
     (display category product)\<lparr>match_reason := Some (''Category: '' @ category),
        similarity_score := Some 0, visual_match := Some False\<rparr>"

definition fallback_search :: "'a product_db \<Rightarrow> string \<Rightarrow> int \<Rightarrow>
    py_error + 'a product_scheme list" where
  "fallback_search db category limit =
     (let fetched =
        (if category \<noteq> ''general'' then
           category_query db
             (case map_of category_mapping category of Some terms \<Rightarrow> terms | None \<Rightarrow> [category])
             limit
         else ranking_query db limit)
      in case fetched of
           QueryError \<Rightarrow> Inl OtherError
         | Fetched products \<Rightarrow> Inr (map (fallback_display category) products))"

definition find_similar_products_body :: "engine \<Rightarrow> 'a product_db \<Rightarrow> string \<Rightarrow> string option \<Rightarrow>
    int \<Rightarrow> py_error + 'a product_scheme list" where
  "find_similar_products_body eng db image_description uploaded_image_bytes limit =
     (let category = detect_product_category image_description in
      case uploaded_image_bytes of
        None \<Rightarrow> fallback_search db category limit
      | Some image_bytes \<Rightarrow>
          if image_bytes = [] then fallback_search db category limit
          else
            (case image_products_query db of
               QueryError \<Rightarrow> Inl OtherError
             | Fetched all_products \<Rightarrow>
                 if all_products = [] then fallback_search db category limit
                 else
                   (let product_ids = map product_id all_products;
                        product_images = get_product_images_from_db db product_ids
                    in if product_images = [] then fallback_search db category limit
                       else visual_search eng
                              (calculate_visual_similarity eng image_bytes product_images)
                              category limit all_products)))"

definition find_similar_products :: "engine \<Rightarrow> 'a product_db option \<Rightarrow> string \<Rightarrow> string option \<Rightarrow>
    int \<Rightarrow> 'a product_scheme list" where
  "find_similar_products eng mysql_db image_description uploaded_image_bytes limit =
     (case mysql_db of
        None \<Rightarrow> []
      | Some db \<Rightarrow>
          (case find_similar_products_body eng db image_description uploaded_image_bytes limit of
             Inl e \<Rightarrow> []
           | Inr products \<Rightarrow> products))"

subsection \<open>Specification-side and example definitions for the matcher\<close>

text \<open>
  The specification's wording of the exact match of the category signal: the item category
  equals, case-insensitively, a token of the description. The tokens are the words of the
  description.
\<close>

definition spec_token_match :: "string \<Rightarrow> string \<Rightarrow> bool" where
  "spec_token_match description category =
     (lower category \<in> set (map lower (find_words [] description)))"

text \<open>An embedding similarity for the examples.\<close>

definition example_similarity :: "string \<Rightarrow> string \<Rightarrow> real option" where
  "example_similarity a b = Some (if a = b then 3 else 0.5)"

text \<open>
  The two tests of the loop over the rows, as predicates of a row: the category test
  \<^verbatim>\<open>category_match\<close> and the similarity test \<^verbatim>\<open>similarity > 0.3\<close>.
\<close>

definition category_matches :: "string \<Rightarrow> 'a product_scheme \<Rightarrow> bool" where
  "category_matches category product =
     (case get_lower (product_type product) of
        Inl e \<Rightarrow> False
      | Inr product_category \<Rightarrow>
          py_in category product_category \<or> py_in product_category category)"

definition is_visual :: "(int \<rightharpoonup> real) \<Rightarrow> 'a product_scheme \<Rightarrow> bool" where
  "is_visual similarities product = (0.3 < get_similarity similarities (product_id product))"


definition mark :: "engine \<Rightarrow> (int \<rightharpoonup> real) \<Rightarrow> string \<Rightarrow> 'a product_scheme \<Rightarrow> 'a product_scheme" where
  "mark eng similarities category product =
     (let similarity = get_similarity similarities (product_id product);
          product1 = product\<lparr>similarity_score := Some similarity,
                            visual_match := Some (similarity > 0.3)\<rparr>
      in if similarity > 0.3 then
           product1\<lparr>match_reason := Some (''Visual similarity: '' @ format_percent eng similarity)\<rparr>
         else if category_matches category product then
           product1\<lparr>match_reason := Some (''Category match: '' @ category)\<rparr>
         else product1)"

definition visual_candidates :: "engine \<Rightarrow> (int \<rightharpoonup> real) \<Rightarrow> string \<Rightarrow> 'a product_scheme list \<Rightarrow>
    'a product_scheme list" where
  "visual_candidates eng similarities category all_products =
     map (mark eng similarities category) (filter (is_visual similarities) all_products)"

definition category_candidates :: "engine \<Rightarrow> (int \<rightharpoonup> real) \<Rightarrow> string \<Rightarrow> 'a product_scheme list \<Rightarrow>
    'a product_scheme list" where
  "category_candidates eng similarities category all_products =
     map (mark eng similarities category)
       (filter (\<lambda>p. \<not> is_visual similarities p \<and> category_matches category p) all_products)"

text \<open>
  An example catalog: four products, three of them with an image, and feature vectors
  whose similarity to the uploaded image is 0.3, 0.30001 and 0.9. Three more catalogs: one
  where all four products have a photo (similarities 0.4 to 0.7), one whose query returns
  a row twice (a product with two inventory rows), and one with a product whose type is
  NULL.
\<close>

definition example_engine :: engine where
  "example_engine = \<lparr>extract_image_features =
       (\<lambda>image_bytes. map_of [(''upload'', [1]), (''image 1'', [0.3]), (''image 3'', [0.30001]),
          (''image 4'', [0.9]), (''photo 1'', [0.4]), (''photo 2'', [0.5]), (''photo 3'', [0.6]),
          (''photo 4'', [0.7])] image_bytes),
     cosine_similarity = (\<lambda>u v. Some (sum_list (map2 (*) u v))),
     format_percent = (\<lambda>similarity. ''%'')\<rparr>"

definition plain_shirt :: product where
  "plain_shirt = example_product\<lparr>product_id := 1, product_name := Val ''Plain'',
     product_discription := Missing, product_type := Val ''shirt'', product_ranking := Val 5\<rparr>"

definition red_shirt :: product where
  "red_shirt = example_product\<lparr>product_id := 2, product_name := Val ''Red Shirt'',
     product_discription := Missing, product_type := Val ''shirt'', product_ranking := Val 1\<rparr>"

definition felt_hat :: product where
  "felt_hat = example_product\<lparr>product_id := 3, product_name := Val ''Felt Hat'',
     product_discription := Missing, product_type := Val ''hat'', product_ranking := Val 2\<rparr>"

definition tote_bag :: product where
  "tote_bag = example_product\<lparr>product_id := 4, product_name := Val ''Tote'',
     product_discription := Missing, product_type := Val ''bag'', product_ranking := Val 3\<rparr>"

definition example_product_db :: "unit product_db" where
  "example_product_db = \<lparr>image_products_query = Fetched [plain_shirt, red_shirt, felt_hat, tote_bag],
     get_product_images_from_db = (\<lambda>ids. [(1, ''image 1''), (3, ''image 3''), (4, ''image 4'')]),
     category_query = (\<lambda>terms limit. Fetched []),
     ranking_query = (\<lambda>limit. Fetched [])\<rparr>"

definition untyped_product :: product where
  "untyped_product = example_product\<lparr>product_id := 5, product_name := Val ''Mystery'',
     product_discription := Missing, product_type := Null, product_ranking := Val 1\<rparr>"

definition crowded_product_db :: "unit product_db" where
  "crowded_product_db = \<lparr>image_products_query = Fetched [plain_shirt, red_shirt, felt_hat, tote_bag],
     get_product_images_from_db =
       (\<lambda>ids. [(1, ''photo 1''), (2, ''photo 2''), (3, ''photo 3''), (4, ''photo 4'')]),
     category_query = (\<lambda>terms limit. Fetched []),
     ranking_query = (\<lambda>limit. Fetched [])\<rparr>"

definition duplicate_rows_db :: "unit product_db" where
  "duplicate_rows_db = \<lparr>image_products_query = Fetched [tote_bag, tote_bag],
     get_product_images_from_db = (\<lambda>ids. [(4, ''image 4'')]),
     category_query = (\<lambda>terms limit. Fetched []),
     ranking_query = (\<lambda>limit. Fetched [])\<rparr>"


section \<open>Knowledge base (\<^verbatim>\<open>WebStoreKnowledgeBase\<close>)\<close>

datatype meta_value = MStr string | MInt int | MFloat real | MNone

record document =
  doc_id :: string
  doc_text :: string
  doc_embedding :: "real list"
  doc_metadata :: "(string \<times> meta_value) list"

text \<open>
  The answer of a collection query: one list per query embedding. \<open>distances\<close> is \<open>None\<close>
  when the key is not in the answer.
\<close>

record query_result =
  documents :: "string list list option"
  metadatas :: "(string \<times> meta_value) list list list option"
  distances :: "real list list option option"

text \<open>
  What the knowledge base is built on. The embedder and the vector collection are external:
  \<open>encode\<close> is \<^verbatim>\<open>self.embedder.encode\<close>; \<open>delete_where\<close>, \<open>add\<close> and \<open>query\<close> are the
  collection's \<^verbatim>\<open>delete(where={})\<close>, \<^verbatim>\<open>add\<close> and \<^verbatim>\<open>query\<close> on a collection
  state \<open>'c\<close>. A call that changes the collection returns the new state and the exception
  it raised, if any. \<open>str_price\<close> is \<^verbatim>\<open>str\<close> of a price.
\<close>

record 'c knowledge_env =
  encode :: "string \<Rightarrow> py_error + real list"
  str_price :: "real \<Rightarrow> string"
  delete_where :: "'c \<Rightarrow> 'c \<times> py_error option"
  add :: "document list \<Rightarrow> 'c \<Rightarrow> 'c \<times> py_error option"
  query :: "'c \<Rightarrow> real list list \<Rightarrow> int \<Rightarrow> py_error + query_result"

subsection \<open>\<^verbatim>\<open>search_knowledge\<close>\<close>

record knowledge_result =
  content :: string
  metadata :: "(string \<times> meta_value) list"
  distance :: real

text \<open>\<^verbatim>\<open>xs[i]\<close> for \<open>i \<ge> 0\<close>, and \<^verbatim>\<open>x[0][i]\<close> on a value that may be \<^verbatim>\<open>None\<close>.\<close>

definition index :: "'a list \<Rightarrow> nat \<Rightarrow> py_error + 'a" where
  "index xs i = (if i < length xs then Inr (xs ! i) else Inl IndexError)"

definition index_0_i :: "'a list list option \<Rightarrow> nat \<Rightarrow> py_error + 'a" where
  "index_0_i table i =
     (case table of
        None \<Rightarrow> Inl TypeError
      | Some rows \<Rightarrow> (case index rows 0 of Inl e \<Rightarrow> Inl e | Inr r \<Rightarrow> index r i))"

fun knowledge_loop :: "query_result \<Rightarrow> nat \<Rightarrow> string list \<Rightarrow> py_error + knowledge_result list" where
  "knowledge_loop results i [] = Inr []"
| "knowledge_loop results i (doc # docs) =
     (case index_0_i (metadatas results) i of
        Inl e \<Rightarrow> Inl e
      | Inr m \<Rightarrow>
          (case (case distances results of None \<Rightarrow> Inr 0 | Some ds \<Rightarrow> index_0_i ds i) of
             Inl e \<Rightarrow> Inl e
           | Inr d \<Rightarrow>
               (case knowledge_loop results (Suc i) docs of
                  Inl e \<Rightarrow> Inl e
                | Inr rest \<Rightarrow> Inr (\<lparr>content = doc, metadata = m, distance = d\<rparr> # rest))))"

text \<open>The body of the \<^verbatim>\<open>try\<close> block.\<close>

definition search_knowledge_body :: "'c knowledge_env \<Rightarrow> 'c \<Rightarrow> string \<Rightarrow> int \<Rightarrow>
    py_error + knowledge_result list" where
  "search_knowledge_body env collection query_text n_results =
     (case encode env query_text of
        Inl e \<Rightarrow> Inl e
      | Inr query_embedding \<Rightarrow>
          (case query env collection [query_embedding] n_results of
             Inl e \<Rightarrow> Inl e
           | Inr results \<Rightarrow>
               (case documents results of
                  None \<Rightarrow> Inr []
                | Some [] \<Rightarrow> Inr []
                | Some (docs # other) \<Rightarrow> knowledge_loop results 0 docs)))"

definition search_knowledge :: "'c knowledge_env \<Rightarrow> 'c option \<Rightarrow> string \<Rightarrow> int \<Rightarrow>
    knowledge_result list" where
  "search_knowledge env vector_db query_text n_results =
     (case vector_db of
        None \<Rightarrow> []
      | Some collection \<Rightarrow>
          (case search_knowledge_body env collection query_text n_results of
             Inl e \<Rightarrow> []
           | Inr knowledge_results \<Rightarrow> knowledge_results))"

subsection \<open>\<^verbatim>\<open>build_knowledge_embeddings\<close>\<close>

text \<open>
  The sources of a rebuild: \<^verbatim>\<open>self.website_features\<close> (pages and policies in dictionary
  order) and the result of \<^verbatim>\<open>extract_database_content\<close>, whose lists are empty when the
  database is unavailable.
\<close>

record kb_product =
  kb_product_id :: int
  kb_product_name :: "string field"
  kb_product_discription :: "string field"
  kb_product_type :: "string field"
  kb_product_price :: "real field"
  kb_stock_quantity :: "int field"

record knowledge_sources =
  pages :: "(string \<times> string) list"
  features :: "string list"
  policies :: "(string \<times> string) list"
  products :: "kb_product list"
  categories :: "string list"

datatype source_item =
    Page string string
  | Feature nat string
  | Policy string string
  | Product kb_product
  | Category string

text \<open>The five loops read the sources in this order.\<close>

definition source_items :: "knowledge_sources \<Rightarrow> source_item list" where
  "source_items src =
     map (\<lambda>(page, description). Page page description) (pages src) @
     map (\<lambda>(i, feature). Feature i feature) (enumerate 0 (features src)) @
     map (\<lambda>(policy_type, policy_text). Policy policy_type policy_text) (policies src) @
     map Product (products src) @
     map Category (categories src)"

definition replace_char :: "char \<Rightarrow> char \<Rightarrow> string \<Rightarrow> string" where
  "replace_char old new s = map (\<lambda>c. if c = old then new else c) s"

definition upper_char :: "char \<Rightarrow> char" where
  "upper_char c = (case map_of (zip lower_letters upper_letters) c of Some u \<Rightarrow> u | None \<Rightarrow> c)"

text \<open>\<^verbatim>\<open>str.title\<close>: a letter after a non-letter becomes upper case, a letter after a
  letter lower case.\<close>

fun title_loop :: "bool \<Rightarrow> string \<Rightarrow> string" where
  "title_loop previous_is_cased [] = []"
| "title_loop previous_is_cased (c # cs) =
     (if c \<in> set lower_letters \<or> c \<in> set upper_letters then
        (if previous_is_cased then lower_char c else upper_char c) # title_loop True cs
      else c # title_loop False cs)"

definition title :: "string \<Rightarrow> string" where
  "title s = title_loop False s"

text \<open>The document id of each kind of source.\<close>

fun source_id :: "source_item \<Rightarrow> string" where
  "source_id (Page page description) = ''page_'' @ replace_char (CHR ''/'') (CHR ''_'') page"
| "source_id (Feature i feature) = ''feature_'' @ str_int (int i)"
| "source_id (Policy policy_type policy_text) = ''policy_'' @ policy_type"
| "source_id (Product product) = ''product_'' @ str_int (kb_product_id product)"
| "source_id (Category category) =
     ''category_'' @ replace_char (CHR '' '') (CHR ''_'') (lower category)"

fun fmt_price :: "'c knowledge_env \<Rightarrow> real field \<Rightarrow> string" where
  "fmt_price env Missing = ''0''"
| "fmt_price env Null = ''None''"
| "fmt_price env (Val v) = str_price env v"

fun fmt_stock :: "int field \<Rightarrow> string" where
  "fmt_stock Missing = ''0''"
| "fmt_stock Null = ''None''"
| "fmt_stock (Val n) = str_int n"

text \<open>\<^verbatim>\<open>float(product.get('product_price', 0))\<close>.\<close>

fun float_price :: "real field \<Rightarrow> py_error + real" where
  "float_price Missing = Inr 0"
| "float_price Null = Inl TypeError"
| "float_price (Val v) = Inr v"

fun meta_str :: "string field \<Rightarrow> meta_value" where
  "meta_str (Val s) = MStr s"
| "meta_str _ = MNone"

fun source_text :: "'c knowledge_env \<Rightarrow> source_item \<Rightarrow> string" where
  "source_text env (Page page description) = ''Page '' @ page @ '': '' @ description"
| "source_text env (Feature i feature) = ''Website feature: '' @ feature"
| "source_text env (Policy policy_type policy_text) =
     title policy_type @ '' Policy: '' @ policy_text"
| "source_text env (Product product) =
     ''Product: '' @ fmt_field (kb_product_name product) @ '' - '' @
     fmt_field (kb_product_discription product) @ '' - Category: '' @
     fmt_field (kb_product_type product) @ '' - Price: $'' @
     fmt_price env (kb_product_price product) @ '' - Stock: '' @
     fmt_stock (kb_stock_quantity product)"
| "source_text env (Category category) = ''Product category: '' @ category"

fun source_metadata :: "source_item \<Rightarrow> py_error + (string \<times> meta_value) list" where
  "source_metadata (Page page description) = Inr [(''type'', MStr ''page''), (''page'', MStr page)]"
| "source_metadata (Feature i feature) =
     Inr [(''type'', MStr ''feature''), (''feature_id'', MInt (int i))]"
| "source_metadata (Policy policy_type policy_text) =
     Inr [(''type'', MStr ''policy''), (''policy_type'', MStr policy_type)]"
| "source_metadata (Product product) =
     (case float_price (kb_product_price product) of
        Inl e \<Rightarrow> Inl e
      | Inr price \<Rightarrow>
          Inr [(''type'', MStr ''product''), (''product_id'', MInt (kb_product_id product)),
               (''category'', meta_str (kb_product_type product)), (''price'', MFloat price)])"
| "source_metadata (Category category) =
     Inr [(''type'', MStr ''category''), (''category'', MStr category)]"

definition source_document :: "'c knowledge_env \<Rightarrow> source_item \<Rightarrow> py_error + document" where
  "source_document env item =
     (let text = source_text env item in
      case encode env text of
        Inl e \<Rightarrow> Inl e
      | Inr embedding \<Rightarrow>
          (case source_metadata item of
             Inl e \<Rightarrow> Inl e
           | Inr m \<Rightarrow>
               Inr \<lparr>doc_id = source_id item, doc_text = text, doc_embedding = embedding,
                    doc_metadata = m\<rparr>))"

text \<open>The documents of all sources, in order; the first exception ends the rebuild.\<close>

fun render_documents :: "'c knowledge_env \<Rightarrow> source_item list \<Rightarrow> py_error + document list" where
  "render_documents env [] = Inr []"
| "render_documents env (item # rest) =
     (case source_document env item of
        Inl e \<Rightarrow> Inl e
      | Inr d \<Rightarrow>
          (case render_documents env rest of
             Inl e \<Rightarrow> Inl e
           | Inr ds \<Rightarrow> Inr (d # ds)))"

text \<open>\<^verbatim>\<open>for i in range(0, len(documents), batch_size)\<close> with the slices
  \<^verbatim>\<open>[i:i+batch_size]\<close>.\<close>

function batches :: "nat \<Rightarrow> 'a list \<Rightarrow> 'a list list" where
  "batches batch_size xs =
     (if xs = [] \<or> batch_size = 0 then []
      else take batch_size xs # batches batch_size (drop batch_size xs))"
  by pat_completeness auto
termination
  by (relation "measure (\<lambda>(batch_size, xs). length xs)") auto

declare batches.simps [simp del]

fun add_batches :: "'c knowledge_env \<Rightarrow> document list list \<Rightarrow> 'c \<Rightarrow> 'c \<times> py_error option" where
  "add_batches env [] collection = (collection, None)"
| "add_batches env (batch # rest) collection =
     (case add env batch collection of
        (collection', Some e) \<Rightarrow> (collection', Some e)
      | (collection', None) \<Rightarrow> add_batches env rest collection')"

text \<open>
  The result is the collection after the call and the exception that left the function,
  if any. A failure of the clearing \<^verbatim>\<open>delete\<close> is swallowed.
\<close>

definition build_knowledge_embeddings :: "'c knowledge_env \<Rightarrow> knowledge_sources \<Rightarrow> 'c option \<Rightarrow>
    'c option \<times> py_error option" where
  "build_knowledge_embeddings env src vector_db =
     (case vector_db of
        None \<Rightarrow> (None, None)
      | Some collection \<Rightarrow>
          (let cleared = fst (delete_where env collection) in
           case render_documents env (source_items src) of
             Inl e \<Rightarrow> (Some cleared, Some e)
           | Inr docs \<Rightarrow>
               (case add_batches env (batches 100 docs) cleared of
                  (collection', raised) \<Rightarrow> (Some collection', raised))))"

subsection \<open>Collection contracts and an example knowledge base\<close>

text \<open>
  The answer lists no document for the query embedding: what a collection that holds no
  document answers, when it answers.
\<close>

definition no_documents :: "query_result \<Rightarrow> bool" where
  "no_documents results =
     (case documents results of None \<Rightarrow> True | Some [] \<Rightarrow> True | Some (docs # other) \<Rightarrow> docs = [])"

text \<open>
  Two contracts of the external collection for the calls of a rebuild. A clearing store
  honours \<^verbatim>\<open>delete(where={})\<close>: it leaves the fresh collection. A keeping store refuses
  the empty filter and leaves the collection as it is, and its \<^verbatim>\<open>add\<close> skips the ids
  that the collection already holds (\<open>ids\<close> are the ids held) and keeps what it held.
\<close>

definition clearing_store :: "'c knowledge_env \<Rightarrow> 'c \<Rightarrow> bool" where
  "clearing_store env fresh = (\<forall>c. fst (delete_where env c) = fresh)"

definition keeping_store :: "'c knowledge_env \<Rightarrow> ('c \<Rightarrow> string set) \<Rightarrow> bool" where
  "keeping_store env ids =
     ((\<forall>c. fst (delete_where env c) = c) \<and>
      (\<forall>batch c. doc_id ` set batch \<subseteq> ids c \<longrightarrow> add env batch c = (c, None)) \<and>
      (\<forall>batch c c'. add env batch c = (c', None) \<longrightarrow> ids c \<union> doc_id ` set batch \<subseteq> ids c'))"

text \<open>
  An example knowledge base on a keeping store (a list of documents), with sources of each
  kind and the documents they render to.
\<close>

definition example_knowledge_env :: "document list knowledge_env" where
  "example_knowledge_env =
     \<lparr>encode = (\<lambda>text. if text = [] then Inl OtherError else Inr [1]),
      str_price = (\<lambda>price. ''9.99''),
      delete_where = (\<lambda>c. (c, Some OtherError)),
      add = (\<lambda>batch c. (c @ filter (\<lambda>d. doc_id d \<notin> set (map doc_id c)) batch, None)),
      query = (\<lambda>c embeddings n.
         if n \<le> 0 then Inl OtherError
         else Inr \<lparr>documents = Some (map (\<lambda>e. map doc_text (take (nat n) c)) embeddings),
                   metadatas = Some (map (\<lambda>e. map doc_metadata (take (nat n) c)) embeddings),
                   distances = Some (Some (map (\<lambda>e. map (\<lambda>d. 0) (take (nat n) c)) embeddings))\<rparr>)\<rparr>"

definition example_sources :: knowledge_sources where
  "example_sources = \<lparr>pages = [(''/shop'', ''Product catalog'')], features = [''Order tracking''],
     policies = [(''returns'', ''30-day return policy.'')],
     products = [\<lparr>kb_product_id = 7, kb_product_name = Val ''Red Shirt'',
       kb_product_discription = Null, kb_product_type = Val ''shirt'',
       kb_product_price = Val 9.99, kb_stock_quantity = Missing\<rparr>],
     categories = [''Summer Wear'']\<rparr>"

definition example_documents :: "document list" where
  "example_documents =
     [\<lparr>doc_id = ''page__shop'', doc_text = ''Page /shop: Product catalog'', doc_embedding = [1],
       doc_metadata = [(''type'', MStr ''page''), (''page'', MStr ''/shop'')]\<rparr>,
      \<lparr>doc_id = ''feature_0'', doc_text = ''Website feature: Order tracking'',
       doc_embedding = [1],
       doc_metadata = [(''type'', MStr ''feature''), (''feature_id'', MInt 0)]\<rparr>,
      \<lparr>doc_id = ''policy_returns'', doc_text = ''Returns Policy: 30-day return policy.'',
       doc_embedding = [1],
       doc_metadata = [(''type'', MStr ''policy''), (''policy_type'', MStr ''returns'')]\<rparr>,
      \<lparr>doc_id = ''product_7'',
       doc_text = ''Product: Red Shirt - None - Category: shirt - Price: $9.99 - Stock: 0'',
       doc_embedding = [1],
       doc_metadata = [(''type'', MStr ''product''), (''product_id'', MInt 7),
         (''category'', MStr ''shirt''), (''price'', MFloat 9.99)]\<rparr>,
      \<lparr>doc_id = ''category_summer_wear'', doc_text = ''Product category: Summer Wear'',
       doc_embedding = [1],
       doc_metadata = [(''type'', MStr ''category''), (''category'', MStr ''Summer Wear'')]\<rparr>]"

section \<open>Properties of the order status derivation\<close>

lemma int_le_div_iff:
  fixes c :: int
  assumes "0 < c"
  shows "(k \<le> d div c) = (k * c \<le> d)"
proof
  assume "k \<le> d div c"
  then have "k * c \<le> (d div c) * c"
    using assms by (simp add: mult_right_mono)
  also have "\<dots> \<le> d"
    using assms by (metis mult.commute pos_mod_sign  mult_div_mod_eq le_add_same_cancel1)
  finally show "k * c \<le> d" .
next
  assume "k * c \<le> d"
  then have "(k * c) div c \<le> d div c"
    using assms by (rule zdiv_mono1)
  then show "k \<le> d div c"
    using assms by simp
qed

lemma days_ge: "(k \<le> days d) = (timedelta_days k \<le> d)"
  unfolding days_def timedelta_days_def by (rule int_le_div_iff) simp

lemma days_lt: "(days d < k) = (d < timedelta_days k)"
  using days_ge [of k d] by linarith

lemma valid_datetime_add:
  "valid_datetime d \<Longrightarrow> 0 \<le> k \<Longrightarrow> d + timedelta_days k \<le> datetime_max \<Longrightarrow>
   datetime_add d (timedelta_days k) = Inr (d + timedelta_days k)"
  by (simp add: datetime_add_def valid_datetime_def timedelta_days_def)

text \<open>
  Claim C1. For an order with a placement date the derived status follows the ordered
  table: with a shipping date, Delivered from 5 days after shipping, In Transit from 1 day
  to under 5 days with the estimated delivery 5 days after shipping, Shipped under 1 day;
  without one, Order Confirmed at 0 days since placement, Processing at 1 day, Ready to
  Ship at 2 to 3 days with the estimated shipping 3 days after placement, Shipped past 3
  days with the estimated delivery 7 days after placement. The dates are datetimes of the
  supported range and the clock is at least 4 days before its end, so that no date
  addition overflows.
\<close>

theorem order_status_decision_table:
  assumes od: "order_date order = Some od"
    and vod: "valid_datetime od"
    and vnow: "valid_datetime now"
    and room: "now + timedelta_days 4 \<le> datetime_max"
    and vsd: "\<forall>sd. shipping_date order = Some sd \<longrightarrow> valid_datetime sd"
  shows "(\<forall>sd. shipping_date order = Some sd \<longrightarrow>
            (timedelta_days 5 \<le> now - sd \<longrightarrow>
               (\<exists>r. tracking_status_logic strftime now cid order = Inr r \<and>
                    tracking_status r = Some ''Delivered'')) \<and>
            (timedelta_days 1 \<le> now - sd \<and> now - sd < timedelta_days 5 \<longrightarrow>
               (\<exists>r. tracking_status_logic strftime now cid order = Inr r \<and>
                    tracking_status r = Some ''In Transit'' \<and>
                    estimated_delivery r = Some (strftime ''%Y-%m-%d'' (sd + timedelta_days 5)))) \<and>
            (now - sd < timedelta_days 1 \<longrightarrow>
               (\<exists>r. tracking_status_logic strftime now cid order = Inr r \<and>
                    tracking_status r = Some ''Shipped''))) \<and>
         (shipping_date order = None \<longrightarrow>
            (days (now - od) = 0 \<longrightarrow>
               (\<exists>r. tracking_status_logic strftime now cid order = Inr r \<and>
                    tracking_status r = Some ''Order Confirmed'')) \<and>
            (days (now - od) = 1 \<longrightarrow>
               (\<exists>r. tracking_status_logic strftime now cid order = Inr r \<and>
                    tracking_status r = Some ''Processing'')) \<and>
            (2 \<le> days (now - od) \<and> days (now - od) \<le> 3 \<longrightarrow>
               (\<exists>r. tracking_status_logic strftime now cid order = Inr r \<and>
                    tracking_status r = Some ''Ready to Ship'' \<and>
                    estimated_shipping r = Some (strftime ''%Y-%m-%d'' (od + timedelta_days 3)))) \<and>
            (3 < days (now - od) \<longrightarrow>
               (\<exists>r. tracking_status_logic strftime now cid order = Inr r \<and>
                    tracking_status r = Some ''Shipped'' \<and>
                    estimated_delivery r = Some (strftime ''%Y-%m-%d'' (od + timedelta_days 7)))))"
proof (intro conjI allI impI)
  fix sd
  assume sd: "shipping_date order = Some sd"
  then have v: "valid_datetime sd" using vsd by simp
  {
    assume h: "timedelta_days 5 \<le> now - sd"
    then have "sd + timedelta_days 5 \<le> datetime_max"
      using vnow by (simp add: valid_datetime_def)
    then have a: "datetime_add sd (timedelta_days 5) = Inr (sd + timedelta_days 5)"
      using v by (simp add: valid_datetime_add)
    from h have "5 \<le> days (now - sd)" by (simp add: days_ge)
    then show "\<exists>r. tracking_status_logic strftime now cid order = Inr r \<and>
        tracking_status r = Some ''Delivered''"
      using od sd a by (simp add: tracking_status_logic_def shipped_status_def)
  }
  {
    assume h: "timedelta_days 1 \<le> now - sd \<and> now - sd < timedelta_days 5"
    then have "sd + timedelta_days 5 \<le> datetime_max"
      using room by (simp add: timedelta_days_def)
    then have a: "datetime_add sd (timedelta_days 5) = Inr (sd + timedelta_days 5)"
      using v by (simp add: valid_datetime_add)
    from h have "1 \<le> days (now - sd)" "\<not> 5 \<le> days (now - sd)"
      using days_lt [of "now - sd" 5] by (simp_all add: days_ge)
    then show "\<exists>r. tracking_status_logic strftime now cid order = Inr r \<and>
        tracking_status r = Some ''In Transit'' \<and>
        estimated_delivery r = Some (strftime ''%Y-%m-%d'' (sd + timedelta_days 5))"
      using od sd a by (simp add: tracking_status_logic_def shipped_status_def)
  }
  {
    assume h: "now - sd < timedelta_days 1"
    then have "\<not> 1 \<le> days (now - sd)" "\<not> 5 \<le> days (now - sd)"
      using days_lt [of "now - sd" 1] days_lt [of "now - sd" 5]
      by (simp_all add: timedelta_days_def)
    then show "\<exists>r. tracking_status_logic strftime now cid order = Inr r \<and>
        tracking_status r = Some ''Shipped''"
      using od sd by (simp add: tracking_status_logic_def shipped_status_def)
  }
next
  assume n: "shipping_date order = None"
  {
    assume "days (now - od) = 0"
    then show "\<exists>r. tracking_status_logic strftime now cid order = Inr r \<and>
        tracking_status r = Some ''Order Confirmed''"
      using od n by (simp add: tracking_status_logic_def unshipped_status_def)
  }
  {
    assume "days (now - od) = 1"
    then show "\<exists>r. tracking_status_logic strftime now cid order = Inr r \<and>
        tracking_status r = Some ''Processing''"
      using od n by (simp add: tracking_status_logic_def unshipped_status_def)
  }
  {
    assume h: "2 \<le> days (now - od) \<and> days (now - od) \<le> 3"
    then have "timedelta_days 2 \<le> now - od" by (simp add: days_ge)
    then have "od + timedelta_days 3 \<le> datetime_max"
      using room by (simp add: timedelta_days_def)
    then have a: "datetime_add od (timedelta_days 3) = Inr (od + timedelta_days 3)"
      using vod by (simp add: valid_datetime_add)
    show "\<exists>r. tracking_status_logic strftime now cid order = Inr r \<and>
        tracking_status r = Some ''Ready to Ship'' \<and>
        estimated_shipping r = Some (strftime ''%Y-%m-%d'' (od + timedelta_days 3))"
      using od n a h by (simp add: tracking_status_logic_def unshipped_status_def)
  }
  {
    assume h: "3 < days (now - od)"
    then have "4 \<le> days (now - od)" by simp
    then have "timedelta_days 4 \<le> now - od" by (simp add: days_ge)
    then have "od + timedelta_days 7 \<le> datetime_max"
      using room by (simp add: timedelta_days_def)
    then have a: "datetime_add od (timedelta_days 7) = Inr (od + timedelta_days 7)"
      using vod by (simp add: valid_datetime_add)
    show "\<exists>r. tracking_status_logic strftime now cid order = Inr r \<and>
        tracking_status r = Some ''Shipped'' \<and>
        estimated_delivery r = Some (strftime ''%Y-%m-%d'' (od + timedelta_days 7))"
      using od n a h by (simp add: tracking_status_logic_def unshipped_status_def)
  }
qed

text \<open>
  Claim C1, the two examples of the specification: an order placed now with no shipping
  date is Order Confirmed, and an order shipped two days ago is In Transit with the
  estimated delivery five days after shipping.
\<close>

theorem order_status_decision_table_witness:
  "(\<exists>r. tracking_status_logic example_strftime (timedelta_days 738000) ''17'' example_order = Inr r \<and>
        tracking_status r = Some ''Order Confirmed'') \<and>
   (\<exists>r. tracking_status_logic example_strftime (timedelta_days 738003) ''17'' in_transit_order = Inr r \<and>
        tracking_status r = Some ''In Transit'' \<and>
        estimated_delivery r = Some (example_strftime ''%Y-%m-%d'' (timedelta_days 738006)))"
proof -
  have a: "order_date example_order = Some (timedelta_days 738000)"
    and b: "valid_datetime (timedelta_days 738000)"
    and c: "timedelta_days 738000 + timedelta_days 4 \<le> datetime_max"
    and d: "\<forall>sd. shipping_date example_order = Some sd \<longrightarrow> valid_datetime sd"
    and e: "shipping_date example_order = None"
    and f: "days (timedelta_days 738000 - timedelta_days 738000) = 0"
    by (simp_all add: example_order_def valid_datetime_def timedelta_days_def datetime_max_def days_def)
  have a': "order_date in_transit_order = Some (timedelta_days 738000)"
    and b': "valid_datetime (timedelta_days 738003)"
    and c': "timedelta_days 738003 + timedelta_days 4 \<le> datetime_max"
    and d': "\<forall>sd. shipping_date in_transit_order = Some sd \<longrightarrow> valid_datetime sd"
    and e': "shipping_date in_transit_order = Some (timedelta_days 738001)"
    and f': "timedelta_days 1 \<le> timedelta_days 738003 - timedelta_days 738001 \<and>
             timedelta_days 738003 - timedelta_days 738001 < timedelta_days 5"
    and g': "timedelta_days 738001 + timedelta_days 5 = timedelta_days 738006"
    by (simp_all add: in_transit_order_def example_order_def valid_datetime_def timedelta_days_def
          datetime_max_def)
  show ?thesis
    using order_status_decision_table [OF a b b c d, of example_strftime "''17''"]
      order_status_decision_table [OF a' b b' c' d', of example_strftime "''17''"]
      e f e' f' g'
    by simp
qed

text \<open>
  Claim C7 fails as stated: an order shipped ten days before its placement is reported
  Delivered, whereas the branch without a shipping date would report Order Confirmed.
\<close>

theorem shipped_before_placed_counterexample:
  "order_date anomalous_order = Some (timedelta_days 738000) \<and>
   shipping_date anomalous_order = Some (timedelta_days 737990) \<and>
   timedelta_days 737990 < timedelta_days 738000 \<and>
   map_sum id tracking_status
     (tracking_status_logic example_strftime (timedelta_days 738000) ''17'' anomalous_order)
     = Inr (Some ''Delivered'') \<and>
   map_sum id tracking_status
     (tracking_status_logic example_strftime (timedelta_days 738000) ''17''
        (anomalous_order\<lparr>shipping_date := None\<rparr>))
     = Inr (Some ''Order Confirmed'')"
  by (simp add: anomalous_order_def example_order_def tracking_status_logic_def shipped_status_def
      unshipped_status_def set_tracking_number_def days_def timedelta_days_def datetime_add_def
      valid_datetime_def datetime_max_def)

text \<open>
  Claim C7, amended. A shipping date earlier than the placement date is not detected: the
  status is the one of the shipped branch, decided by the time since shipping alone, and
  nothing is flagged (the placement date, the shipping date, the estimated shipping date
  and every other column are as they were).
\<close>

theorem shipped_date_decides_status:
  assumes od: "order_date order = Some od"
    and sd: "shipping_date order = Some sd"
    and early: "sd < od"
    and vsd: "valid_datetime sd"
    and room: "now + timedelta_days 4 \<le> datetime_max"
  shows "\<exists>r. tracking_status_logic strftime now cid order = Inr r \<and>
           tracking_status r = Some
             (if timedelta_days 5 \<le> now - sd then ''Delivered''
              else if timedelta_days 1 \<le> now - sd then ''In Transit''
              else ''Shipped'') \<and>
           estimated_shipping r = estimated_shipping order \<and>
           order_date r = order_date order \<and>
           shipping_date r = shipping_date order \<and>
           order.more r = order.more order"
proof -
  have le: "sd + timedelta_days 5 \<le> datetime_max" if "timedelta_days 1 \<le> now - sd"
    using that room by (simp add: timedelta_days_def)
  have a: "datetime_add sd (timedelta_days 5) = Inr (sd + timedelta_days 5)"
    if "timedelta_days 1 \<le> now - sd"
    using le [OF that] vsd by (simp add: valid_datetime_add)
  have b: "timedelta_days 5 \<le> now - sd \<Longrightarrow> timedelta_days 1 \<le> now - sd"
    by (simp add: timedelta_days_def)
  show ?thesis
    using od sd a b
    by (simp add: tracking_status_logic_def shipped_status_def set_tracking_number_def days_ge
        split: option.split)
qed

text \<open>
  Claim C7, amended, at the order shipped ten days before its placement.
\<close>

theorem shipped_date_decides_status_witness:
  "\<exists>r. tracking_status_logic example_strftime (timedelta_days 738000) ''17'' anomalous_order = Inr r \<and>
       tracking_status r = Some ''Delivered'' \<and>
       estimated_shipping r = None"
proof -
  have "order_date anomalous_order = Some (timedelta_days 738000)"
    and "shipping_date anomalous_order = Some (timedelta_days 737990)"
    and "timedelta_days 737990 < timedelta_days 738000"
    and "valid_datetime (timedelta_days 737990)"
    and "timedelta_days 738000 + timedelta_days 4 \<le> datetime_max"
    and "timedelta_days 5 \<le> timedelta_days 738000 - timedelta_days 737990"
    and "estimated_shipping anomalous_order = None"
    by (simp_all add: anomalous_order_def example_order_def valid_datetime_def timedelta_days_def
          datetime_max_def)
  then show ?thesis
    using shipped_date_decides_status [of anomalous_order "timedelta_days 738000"
        "timedelta_days 737990" "timedelta_days 738000" example_strftime "''17''"]
    by auto
qed

text \<open>
  Claim C9. When the fetched order row has no placement date, the function returns the row
  with its items and payment attached and nothing else assigned: tracking status, message
  and number, the tracking flag and both estimated dates are those of the fetched row.
\<close>

theorem no_placement_date_no_status:
  assumes db: "mysql_db = Some db"
    and row: "order_query db (strip (filter (\<lambda>c. c \<noteq> CHR ''#'') order_id)) = Fetched (Some order)"
    and its: "items_query db (strip (filter (\<lambda>c. c \<noteq> CHR ''#'') order_id)) = Fetched its"
    and pay: "payment_query db (strip (filter (\<lambda>c. c \<noteq> CHR ''#'') order_id)) = Fetched pay"
    and nodate: "order_date order = None"
  shows "get_order_by_id strftime now mysql_db order_id =
           Inr (Some (order\<lparr>items := Some its, payment := Some pay\<rparr>))"
  using assms by (simp add: get_order_by_id_def tracking_status_logic_def)

text \<open>
  Claim C9 at an order row without a placement date.
\<close>

theorem no_placement_date_no_status_witness:
  "get_order_by_id example_strftime (timedelta_days 738000) (Some example_database) '' #17 '' =
     Inr (Some (example_order\<lparr>order_date := None, items := Some [], payment := Some None\<rparr>))"
proof -
  have s: "strip '' 17 '' = ''17''"
    by (simp add: strip_def is_space_def)
  show ?thesis
    using no_placement_date_no_status [of "Some example_database" example_database "'' #17 ''"
        "example_order\<lparr>order_date := None\<rparr>" "[]" None example_strftime "timedelta_days 738000"]
    by (simp add: s example_database_def)
qed

section \<open>Properties of the product matcher\<close>

lemma max_by_first:
  "\<exists>pre post. best # xs = pre @ max_by key best xs # post \<and>
     (\<forall>x\<in>set pre. key x < key (max_by key best xs)) \<and>
     (\<forall>x\<in>set post. key x \<le> key (max_by key best xs))"
proof (induction xs arbitrary: best)
  case Nil
  have "[best] = [] @ max_by key best [] # []" by simp
  then show ?case by (metis empty_iff list.set(1))
next
  case (Cons x xs)
  define b where "b = (if key best < key x then x else best)"
  define r where "r = max_by key b xs"
  have r: "max_by key best (x # xs) = r" by (simp add: r_def b_def)
  have bx: "key x \<le> key b" and bb: "key best \<le> key b" by (simp_all add: b_def)
  from Cons.IH [of b] obtain pre post where
    split: "b # xs = pre @ r # post"
    and lt: "\<forall>y\<in>set pre. key y < key r"
    and le: "\<forall>y\<in>set post. key y \<le> key r"
    unfolding r_def by blast
  show ?case
  proof (cases pre)
    case Nil
    with split have rb: "r = b" and p: "post = xs" by simp_all
    show ?thesis
    proof (cases "key best < key x")
      case True
      then have "b = x" by (simp add: b_def)
      then have "best # x # xs = [best] @ r # xs" using rb by simp
      moreover have "\<forall>y\<in>set [best]. key y < key r"
        using True \<open>b = x\<close> rb by simp
      moreover have "\<forall>y\<in>set xs. key y \<le> key r"
        using le p by simp
      ultimately show ?thesis unfolding r by blast
    next
      case False
      then have "b = best" by (simp add: b_def)
      then have "best # x # xs = [] @ r # (x # xs)" using rb by simp
      moreover have "\<forall>y\<in>set (x # xs). key y \<le> key r"
        using le p rb bx by simp
      ultimately show ?thesis unfolding r by (metis empty_iff list.set(1))
    qed
  next
    case (Cons p pre')
    with split have pb: "p = b" and xs: "xs = pre' @ r # post" by simp_all
    have "key b < key r" using lt Cons pb by simp
    then have kb: "key best < key r" and kx: "key x < key r"
      using bx bb by simp_all
    have "best # x # xs = (best # x # pre') @ r # post"
      using xs by simp
    moreover have "\<forall>y\<in>set (best # x # pre'). key y < key r"
      using kb kx lt Cons by simp
    moreover have "\<forall>y\<in>set post. key y \<le> key r"
      using le by simp
    ultimately show ?thesis unfolding r by blast
  qed
qed

lemma filter_eq_append_ConsD:
  "filter P ys = pre' @ r # post' \<Longrightarrow>
   \<exists>pre post. ys = pre @ r # post \<and> filter P pre = pre' \<and> filter P post = post'"
proof (induction pre' arbitrary: ys)
  case Nil
  then have "filter P ys = r # post'" by simp
  then obtain us vs where "ys = us @ r # vs" "\<forall>u\<in>set us. \<not> P u" "P r" "post' = filter P vs"
    by (auto simp: filter_eq_Cons_iff)
  then have "ys = us @ r # vs \<and> filter P us = [] \<and> filter P vs = post'"
    by simp
  then show ?case by blast
next
  case (Cons a pre')
  then have "filter P ys = a # (pre' @ r # post')" by simp
  then obtain us vs where ys: "ys = us @ a # vs" and us: "\<forall>u\<in>set us. \<not> P u" and a: "P a"
    and vs: "filter P vs = pre' @ r # post'"
    by (auto simp: filter_eq_Cons_iff)
  from Cons.IH [OF vs] obtain p q where "vs = p @ r # q" "filter P p = pre'" "filter P q = post'"
    by blast
  then have "ys = (us @ a # p) @ r # q \<and> filter P (us @ a # p) = a # pre' \<and> filter P q = post'"
    using ys us a by simp
  then show ?case by blast
qed

lemma category_labels:
  "map fst category_mapping =
     [''shirt'', ''bag'', ''watch'', ''shoes'', ''jeans'', ''dress'', ''jacket'', ''accessories'']"
  by (simp add: category_mapping_def)

lemma detect_first_best:
  assumes "category_scores d = first # rest"
  shows "\<exists>pre c kws post. category_mapping = pre @ (c, kws) # post \<and>
           fst (max_by snd first rest) = c \<and> 0 < count_keywords d kws \<and>
           (\<forall>(c', kws')\<in>set pre. count_keywords d kws' < count_keywords d kws) \<and>
           (\<forall>(c', kws')\<in>set post. count_keywords d kws' \<le> count_keywords d kws)"
proof -
  let ?f = "\<lambda>(category, keywords). (category, count_keywords d keywords)"
  let ?P = "\<lambda>(category, score). score > (0::nat)"
  let ?r = "max_by snd first rest"
  from max_by_first [of first rest snd] obtain pre' post' where
    split: "first # rest = pre' @ ?r # post'"
    and lt: "\<forall>x\<in>set pre'. snd x < snd ?r"
    and le: "\<forall>x\<in>set post'. snd x \<le> snd ?r"
    by blast
  from assms split have "filter ?P (map ?f category_mapping) = pre' @ ?r # post'"
    by (simp add: category_scores_def)
  from filter_eq_append_ConsD [OF this] obtain us vs where
    m: "map ?f category_mapping = us @ ?r # vs"
    and fu: "filter ?P us = pre'" and fv: "filter ?P vs = post'"
    by blast
  from m obtain pre x post where cm: "category_mapping = pre @ x # post"
    and us: "us = map ?f pre" and x: "?f x = ?r" and vs: "vs = map ?f post"
    by (auto simp: map_eq_append_conv map_eq_Cons_conv)
  obtain c kws where xc: "x = (c, kws)" by (cases x)
  with x have r: "?r = (c, count_keywords d kws)" by simp
  have "?r \<in> set (filter ?P (map ?f category_mapping))"
    using \<open>filter ?P (map ?f category_mapping) = pre' @ ?r # post'\<close> by simp
  then have pos: "0 < count_keywords d kws" using r by auto
  have a: "count_keywords d kws' < count_keywords d kws" if "(c', kws') \<in> set pre" for c' kws'
  proof (cases "0 < count_keywords d kws'")
    case True
    then have "(c', count_keywords d kws') \<in> set pre'"
      using that fu us by force
    then show ?thesis using lt r by force
  next
    case False
    then show ?thesis using pos by simp
  qed
  have b: "count_keywords d kws' \<le> count_keywords d kws" if "(c', kws') \<in> set post" for c' kws'
  proof (cases "0 < count_keywords d kws'")
    case True
    then have "(c', count_keywords d kws') \<in> set post'"
      using that fv vs by force
    then show ?thesis using le r by force
  next
    case False
    then show ?thesis by simp
  qed
  have "category_mapping = pre @ (c, kws) # post \<and> fst ?r = c \<and> 0 < count_keywords d kws \<and>
        (\<forall>(c', kws')\<in>set pre. count_keywords d kws' < count_keywords d kws) \<and>
        (\<forall>(c', kws')\<in>set post. count_keywords d kws' \<le> count_keywords d kws)"
    using cm xc r pos a b by auto
  then show ?thesis by blast
qed

lemma category_scores_Nil:
  "category_scores d = [] \<Longrightarrow> (c, kws) \<in> set category_mapping \<Longrightarrow> count_keywords d kws = 0"
  by (force simp: category_scores_def filter_empty_conv)

text \<open>
  Claim C10. For every description, the empty one included, the detected category is a
  non-empty label among shirt, bag, watch, shoes, jeans, dress, jacket, accessories,
  clothing and general. When some category has a keyword in the description, the result
  is the first category of the mapping with the highest count: every category before it
  counts strictly less, every category after it counts at most as much. When none has,
  the result is clothing or general.
\<close>

theorem detect_product_category_label:
  "detect_product_category description \<in>
      set [''shirt'', ''bag'', ''watch'', ''shoes'', ''jeans'', ''dress'', ''jacket'',
           ''accessories'', ''clothing'', ''general''] \<and>
   detect_product_category description \<noteq> [] \<and>
   ((\<exists>(c, kws)\<in>set category_mapping. 0 < count_keywords (lower description) kws) \<longrightarrow>
      (\<exists>pre c kws post. category_mapping = pre @ (c, kws) # post \<and>
         detect_product_category description = c \<and>
         0 < count_keywords (lower description) kws \<and>
         (\<forall>(c', kws')\<in>set pre.
            count_keywords (lower description) kws' < count_keywords (lower description) kws) \<and>
         (\<forall>(c', kws')\<in>set post.
            count_keywords (lower description) kws' \<le> count_keywords (lower description) kws))) \<and>
   ((\<forall>(c, kws)\<in>set category_mapping. count_keywords (lower description) kws = 0) \<longrightarrow>
      detect_product_category description \<in> {''clothing'', ''general''})"
proof (cases "category_scores (lower description)")
  case Nil
  then have none: "\<forall>(c, kws)\<in>set category_mapping. count_keywords (lower description) kws = 0"
    using category_scores_Nil by blast
  have d: "detect_product_category description \<in> {''clothing'', ''general''}"
    using Nil by (simp add: detect_product_category_def Let_def)
  then have "detect_product_category description \<in>
      set [''shirt'', ''bag'', ''watch'', ''shoes'', ''jeans'', ''dress'', ''jacket'',
           ''accessories'', ''clothing'', ''general'']"
    and "detect_product_category description \<noteq> []"
    by auto
  moreover have "\<not> (\<exists>(c, kws)\<in>set category_mapping. 0 < count_keywords (lower description) kws)"
    using none by auto
  ultimately show ?thesis using d by blast
next
  case (Cons first rest)
  from detect_first_best [OF Cons] obtain pre c kws post where
    cm: "category_mapping = pre @ (c, kws) # post"
    and c: "fst (max_by snd first rest) = c"
    and pos: "0 < count_keywords (lower description) kws"
    and lt: "\<forall>(c', kws')\<in>set pre.
            count_keywords (lower description) kws' < count_keywords (lower description) kws"
    and le: "\<forall>(c', kws')\<in>set post.
            count_keywords (lower description) kws' \<le> count_keywords (lower description) kws"
    by blast
  have d: "detect_product_category description = c"
    using Cons c by (simp add: detect_product_category_def)
  have "(c, kws) \<in> set category_mapping"
    unfolding cm by simp
  then have "c \<in> set (map fst category_mapping)"
    by force
  then have mem: "c \<in> set [''shirt'', ''bag'', ''watch'', ''shoes'', ''jeans'', ''dress'',
      ''jacket'', ''accessories'']"
    by (simp only: category_labels)
  then have l: "detect_product_category description \<in>
      set [''shirt'', ''bag'', ''watch'', ''shoes'', ''jeans'', ''dress'', ''jacket'',
           ''accessories'', ''clothing'', ''general'']"
    and ne: "detect_product_category description \<noteq> []"
    using d by auto
  have "\<not> (\<forall>(c, kws)\<in>set category_mapping. count_keywords (lower description) kws = 0)"
    using pos \<open>(c, kws) \<in> set category_mapping\<close> by force
  moreover have "\<exists>pre c kws post. category_mapping = pre @ (c, kws) # post \<and>
         detect_product_category description = c \<and>
         0 < count_keywords (lower description) kws \<and>
         (\<forall>(c', kws')\<in>set pre.
            count_keywords (lower description) kws' < count_keywords (lower description) kws) \<and>
         (\<forall>(c', kws')\<in>set post.
            count_keywords (lower description) kws' \<le> count_keywords (lower description) kws)"
    using cm d pos lt le by blast
  ultimately show ?thesis using l ne by blast
qed

lemma py_in_sublist: "py_in sub s = sublist sub s"
  by (induction s) (simp_all add: sublist_Cons_right)

lemma lower_Nil_iff: "(lower t = []) = (t = [])"
  by (simp add: lower_def)

lemma synonym_loop_iff:
  "synonym_loop t d table =
     (\<exists>(category, synonyms)\<in>set table.
        (t = category \<and> (\<exists>s\<in>set synonyms. py_in s d)) \<or>
        (t \<noteq> category \<and> t \<in> set synonyms \<and> py_in category d))"
  by (induction t d table rule: synonym_loop.induct) (auto simp: list_ex_iff)

text \<open>
  Claim C4, amended. The category signal is 1.0 when the item's category is a non-empty
  string whose lower-case form occurs as a substring of the lower-cased description;
  otherwise 0.8 when the synonym table links them by substring (the category is a key and
  one of its synonyms occurs in the description, or the category is a synonym of another
  key and that key occurs in the description); otherwise 0.0, also for a missing, NULL or
  empty category.
\<close>

theorem calculate_category_similarity_substring:
  "calculate_category_similarity description product =
     (case product_type product of
        Missing \<Rightarrow> 0
      | Null \<Rightarrow> 0
      | Val t \<Rightarrow>
          if t = [] then 0
          else if sublist (lower t) (lower description) then 1
          else if (\<exists>(category, synonyms)\<in>set category_synonyms.
                     (lower t = category \<and> (\<exists>s\<in>set synonyms. sublist s (lower description))) \<or>
                     (lower t \<noteq> category \<and> lower t \<in> set synonyms \<and>
                        sublist category (lower description)))
          then 0.8 else 0)"
proof (cases "product_type product")
  case Missing
  then show ?thesis by (simp add: calculate_category_similarity_def)
next
  case Null
  then show ?thesis by (simp add: calculate_category_similarity_def)
next
  case (Val t)
  have "calculate_category_similarity description product =
      (if t = [] then 0
       else if py_in (lower t) (lower description) then 1
       else if synonym_loop (lower t) (lower description) category_synonyms then 0.8 else 0)"
    using Val by (simp add: calculate_category_similarity_def lower_Nil_iff)
  then show ?thesis
    using Val by (simp add: synonym_loop_iff py_in_sublist)
qed

text \<open>
  Claim C4 fails as stated: for the description "what a day" and the category "Hat" the
  signal is 1.0, although no token of the description is the category.
\<close>

theorem category_substring_counterexample:
  "calculate_category_similarity ''what a day'' (example_product\<lparr>product_type := Val ''Hat''\<rparr>) = 1 \<and>
   \<not> spec_token_match ''what a day'' ''Hat''"
  by (simp add: calculate_category_similarity_def example_product_def spec_token_match_def
      lower_def lower_char_def upper_letters_def lower_letters_def is_word_char_def)

text \<open>
  Claim C4, amended, at four inputs: a substring that is not a token, a synonym of the
  category, the category of a synonym, and no link.
\<close>

theorem calculate_category_similarity_substring_witness:
  "calculate_category_similarity ''what a day'' (example_product\<lparr>product_type := Val ''Hat''\<rparr>) = 1 \<and>
   calculate_category_similarity ''A nice CAP'' (example_product\<lparr>product_type := Val ''Hat''\<rparr>) = 0.8 \<and>
   calculate_category_similarity ''a nice hat'' (example_product\<lparr>product_type := Val ''cap''\<rparr>) = 0.8 \<and>
   calculate_category_similarity ''a nice hat'' (example_product\<lparr>product_type := Val ''scarf''\<rparr>) = 0"
proof -
  have l: "lower ''what a day'' = ''what a day''" "lower ''Hat'' = ''hat''"
    "lower ''A nice CAP'' = ''a nice cap''" "lower ''a nice hat'' = ''a nice hat''"
    "lower ''cap'' = ''cap''" "lower ''scarf'' = ''scarf''"
    by (simp_all add: lower_def lower_char_def upper_letters_def lower_letters_def)
  show ?thesis
    using calculate_category_similarity_substring [of "''what a day''" "example_product\<lparr>product_type := Val ''Hat''\<rparr>"]
      calculate_category_similarity_substring [of "''A nice CAP''" "example_product\<lparr>product_type := Val ''Hat''\<rparr>"]
      calculate_category_similarity_substring [of "''a nice hat''" "example_product\<lparr>product_type := Val ''cap''\<rparr>"]
      calculate_category_similarity_substring [of "''a nice hat''" "example_product\<lparr>product_type := Val ''scarf''\<rparr>"]
    by (simp add: l category_synonyms_def sublist_Cons_right)
qed

lemma semantic_nonneg: "0 \<le> calculate_semantic_similarity es d p"
  by (simp add: calculate_semantic_similarity_def Let_def split: option.split)

lemma keyword_range:
  "0 \<le> calculate_keyword_similarity fk d p \<and> calculate_keyword_similarity fk d p \<le> 1"
  by (simp add: calculate_keyword_similarity_def Let_def divide_le_eq)

lemma category_range:
  "calculate_category_similarity d p \<in> {0, 0.8, 1}"
  by (simp add: calculate_category_similarity_def Let_def split: sum.split)

lemma count_matches_le: "count_matches v d t \<le> length v"
  by (simp add: count_matches_def)

lemma visual_range:
  "0 \<le> calculate_text_visual_similarity d p \<and> calculate_text_visual_similarity d p \<le> 1"
proof -
  have "count_matches colors a b + count_matches patterns a b + count_matches styles a b
      \<le> length colors + length patterns + length styles" for a b
    using count_matches_le [of colors a b] count_matches_le [of patterns a b]
      count_matches_le [of styles a b] by linarith
  then show ?thesis
    unfolding calculate_text_visual_similarity_def Let_def
    by (simp add: divide_le_eq del: of_nat_add)
qed

text \<open>
  Claim C2. The composite score is 0.4 times the semantic signal plus 0.3 times the
  keyword signal plus 0.2 times the category signal plus 0.1 times the visual-text signal,
  capped at 1, and lies between 0 and 1, for every embedding similarity, every iteration
  order of the keyword set, every description and every item.
\<close>

theorem composite_score_weights_and_range:
  "calculate_advanced_similarity es fk d p =
     min (0.4 * calculate_semantic_similarity es d p +
          0.3 * calculate_keyword_similarity fk d p +
          0.2 * calculate_category_similarity d p +
          0.1 * calculate_text_visual_similarity d p) 1 \<and>
   0 \<le> calculate_advanced_similarity es fk d p \<and>
   calculate_advanced_similarity es fk d p \<le> 1"
proof -
  have eq: "calculate_advanced_similarity es fk d p =
     min (0.4 * calculate_semantic_similarity es d p +
          0.3 * calculate_keyword_similarity fk d p +
          0.2 * calculate_category_similarity d p +
          0.1 * calculate_text_visual_similarity d p) 1"
    by (simp add: calculate_advanced_similarity_def Let_def mult.commute)
  have "0 \<le> calculate_category_similarity d p"
    using category_range [of d p] by auto
  then have "0 \<le> 0.4 * calculate_semantic_similarity es d p +
          0.3 * calculate_keyword_similarity fk d p +
          0.2 * calculate_category_similarity d p +
          0.1 * calculate_text_visual_similarity d p"
    using semantic_nonneg [of es d p] keyword_range [of fk d p] visual_range [of d p]
    by simp
  then show ?thesis
    unfolding eq by simp
qed

lemma lower_examples:
  "lower ''red cotton shirt'' = ''red cotton shirt''"
  "lower ''Red Cotton Shirt A casual shirt Shirt'' = ''red cotton shirt a casual shirt shirt''"
  "lower ''Red Cotton Shirt A casual shirt'' = ''red cotton shirt a casual shirt''"
  "lower ''Shirt'' = ''shirt''"
  "lower ''blue polo shirt with a handbag'' = ''blue polo shirt with a handbag''"
  by (simp_all add: lower_def lower_char_def upper_letters_def lower_letters_def)

text \<open>
  Claim C2 at an item scoring 19/27 and at one whose weighted sum exceeds the cap.
\<close>

theorem composite_score_weights_and_range_witness:
  "calculate_advanced_similarity example_similarity fashion_keywords_set
     ''red cotton shirt'' example_product = 19 / 27 \<and>
   calculate_advanced_similarity example_similarity fashion_keywords_set
     ''Red Cotton Shirt A casual shirt Shirt'' example_product = 1"
proof -
  have k: "extract_keywords fashion_keywords_set ''red cotton shirt'' =
      [''shirt'', ''red'', ''cotton'']"
    by code_simp
  have k2: "calculate_keyword_similarity fashion_keywords_set ''red cotton shirt''
      example_product = 1"
    by (simp add: calculate_keyword_similarity_def k example_product_def lower_examples
        sublist_Cons_right py_in_sublist lower_def lower_char_def upper_letters_def lower_letters_def)
  have s: "calculate_semantic_similarity example_similarity ''red cotton shirt'' example_product = 0.5"
    "calculate_semantic_similarity example_similarity ''Red Cotton Shirt A casual shirt Shirt''
       example_product = 3"
    by (simp_all add: calculate_semantic_similarity_def example_similarity_def example_product_def
        strip_def is_space_def)
  have c: "calculate_category_similarity ''red cotton shirt'' example_product = 1"
    by (simp add: calculate_category_similarity_def example_product_def lower_examples
        py_in_sublist sublist_Cons_right)
  have v: "calculate_text_visual_similarity ''red cotton shirt'' example_product = 1 / 27"
    by (simp add: calculate_text_visual_similarity_def example_product_def lower_examples
        count_matches_def colors_def patterns_def styles_def py_in_sublist sublist_Cons_right)
  have big: "1 \<le> 0.4 * (3::real) + 0.3 * a + 0.2 * b + 0.1 * c" if "0 \<le> a" "0 \<le> b" "0 \<le> c" for a b c
    using that by simp
  have b2: "0 \<le> calculate_category_similarity d p" for d and p :: product
    using category_range [of d p] by auto
  show ?thesis
    using composite_score_weights_and_range [of example_similarity fashion_keywords_set
        "''red cotton shirt''" example_product]
      composite_score_weights_and_range [of example_similarity fashion_keywords_set
        "''Red Cotton Shirt A casual shirt Shirt''" example_product]
      big [OF conjunct1 [OF keyword_range] b2 conjunct1 [OF visual_range],
        of fashion_keywords_set "''Red Cotton Shirt A casual shirt Shirt''" example_product
           "''Red Cotton Shirt A casual shirt Shirt''" example_product
           "''Red Cotton Shirt A casual shirt Shirt''" example_product]
    by (simp add: k2 s c v)
qed

text \<open>
  Claim C10 at a description where shirt and bag both count two keywords (the earlier one,
  shirt, wins) and at the empty description.
\<close>

theorem detect_product_category_label_witness:
  "detect_product_category ''blue polo shirt with a handbag'' = ''shirt'' \<and>
   count_keywords (lower ''blue polo shirt with a handbag'')
     [''shirt'', ''top'', ''blouse'', ''t-shirt'', ''polo'', ''tank'', ''vest''] = 2 \<and>
   count_keywords (lower ''blue polo shirt with a handbag'')
     [''bag'', ''purse'', ''handbag'', ''backpack'', ''tote'', ''clutch''] = 2 \<and>
   detect_product_category [] = ''general''"
proof -
  have "detect_product_category ''blue polo shirt with a handbag'' = ''shirt''"
    by code_simp
  moreover have "detect_product_category [] = ''general''"
    by code_simp
  moreover have "count_keywords (lower ''blue polo shirt with a handbag'')
     [''shirt'', ''top'', ''blouse'', ''t-shirt'', ''polo'', ''tank'', ''vest''] = 2"
    "count_keywords (lower ''blue polo shirt with a handbag'')
     [''bag'', ''purse'', ''handbag'', ''backpack'', ''tote'', ''clutch''] = 2"
    by (simp_all add: count_keywords_def lower_examples py_in_sublist sublist_Cons_right)
  ultimately show ?thesis
    using detect_product_category_label [of "''blue polo shirt with a handbag''"]
      detect_product_category_label [of "[]"]
    by simp
qed

section \<open>Properties of the image search\<close>

lemma mark_fields:
  "product_id (mark eng sims c p) = product_id p"
  "product_type (mark eng sims c p) = product_type p"
  "product_ranking (mark eng sims c p) = product_ranking p"
  "similarity_score (mark eng sims c p) = Some (get_similarity sims (product_id p))"
  "visual_match (mark eng sims c p) = Some (0.3 < get_similarity sims (product_id p))"
  by (simp_all add: mark_def Let_def)

lemma match_loop_exact:
  "\<forall>p\<in>set ps. product_type p \<noteq> Null \<Longrightarrow>
   match_loop eng sims c ps =
     (map (mark eng sims c) ps, visual_candidates eng sims c ps,
      category_candidates eng sims c ps, None)"
proof (induction ps)
  case Nil
  then show ?case by (simp add: visual_candidates_def category_candidates_def)
next
  case (Cons p ps)
  then obtain t where t: "get_lower (product_type p) = Inr t"
    by (cases "product_type p") simp_all
  have cm: "category_matches c p = (py_in c t \<or> py_in t c)"
    by (simp add: category_matches_def t)
  from Cons have IH: "match_loop eng sims c ps =
     (map (mark eng sims c) ps, visual_candidates eng sims c ps,
      category_candidates eng sims c ps, None)"
    by simp
  show ?case
    by (simp add: IH t Let_def visual_candidates_def category_candidates_def mark_def cm
        is_visual_def)
qed

lemma match_loop_raises:
  "\<forall>p\<in>set pre. product_type p \<noteq> Null \<Longrightarrow> product_type x = Null \<Longrightarrow>
   match_loop eng sims c (pre @ x # post) =
     (map (mark eng sims c) pre @
        x\<lparr>similarity_score := Some (get_similarity sims (product_id x)),
           visual_match := Some (0.3 < get_similarity sims (product_id x))\<rparr> # post,
      visual_candidates eng sims c pre, category_candidates eng sims c pre,
      Some AttributeError)"
proof (induction pre)
  case Nil
  then show ?case by (simp add: visual_candidates_def category_candidates_def Let_def)
next
  case (Cons p pre)
  then obtain t where t: "get_lower (product_type p) = Inr t"
    by (cases "product_type p") simp_all
  have cm: "category_matches c p = (py_in c t \<or> py_in t c)"
    by (simp add: category_matches_def t)
  from Cons have IH: "match_loop eng sims c (pre @ x # post) =
     (map (mark eng sims c) pre @
        x\<lparr>similarity_score := Some (get_similarity sims (product_id x)),
           visual_match := Some (0.3 < get_similarity sims (product_id x))\<rparr> # post,
      visual_candidates eng sims c pre, category_candidates eng sims c pre,
      Some AttributeError)"
    by simp
  show ?case
    using IH
    by (simp add: t Let_def visual_candidates_def category_candidates_def mark_def cm
        is_visual_def)
qed

lemma display_fields:
  "similarity_score (display c p) = similarity_score p"
  "visual_match (display c p) = visual_match p"
  "product_id (display c p) = product_id p"
  "product_type (display c p) = product_type p"
  "product_ranking (display c p) = product_ranking p"
  "match_reason (display c p) = match_reason p"
  by (simp_all add: display_def)

lemma display_derived:
  "score_of (display c p) = score_of p"
  "ranking_of (display c p) = ranking_of p"
  "category_matches c' (display c p) = category_matches c' p"
  "is_visual sims (display c p) = is_visual sims p"
  by (simp_all add: score_of_def ranking_of_def category_matches_def is_visual_def display_fields)

lemma py_slice_to_take: "\<exists>k. py_slice_to limit xs = take k xs \<and> (0 \<le> limit \<longrightarrow> k = nat limit)"
  by (cases "0 \<le> limit") (auto simp: py_slice_to_def)

lemma sorted_desc_sort_key:
  fixes f :: "'a \<Rightarrow> real"
  shows "sorted_wrt (\<lambda>a b. f b \<le> f a) (sort_key (\<lambda>p. - f p) xs)"
proof -
  have "sorted (map (\<lambda>p. - f p) (sort_key (\<lambda>p. - f p) xs))"
    by (rule sorted_sort_key)
  then show ?thesis
    by (simp add: sorted_map)
qed

lemma distinct_ids_sort_key:
  "distinct (map g xs) \<Longrightarrow> distinct (map g (sort_key f xs))"
  by (simp add: distinct_map)

lemma find_similar_products_visual_path:
  assumes "mysql_db = Some db"
    and "uploaded_image_bytes = Some image_bytes" and "image_bytes \<noteq> []"
    and "image_products_query db = Fetched all_products" and "all_products \<noteq> []"
    and "get_product_images_from_db db (map product_id all_products) = product_images"
    and "product_images \<noteq> []"
  shows "find_similar_products eng mysql_db description uploaded_image_bytes limit =
           (case visual_search eng (calculate_visual_similarity eng image_bytes product_images)
                   (detect_product_category description) limit all_products of
              Inl e \<Rightarrow> []
            | Inr found \<Rightarrow> found)"
  using assms by (simp add: find_similar_products_def find_similar_products_body_def Let_def)


lemma first_null_split:
  assumes "\<exists>p\<in>set ps. product_type p = Null"
  obtains pre x post where "ps = pre @ x # post" and "product_type x = Null"
    and "\<forall>p\<in>set pre. product_type p \<noteq> Null"
  using split_list_first_prop [OF assms] by blast

lemma visual_search_exact:
  "visual_search eng sims c limit ps =
     (if list_ex (\<lambda>p. product_type p = Null) ps then Inl AttributeError
      else case sort_by_ranking (category_candidates eng sims c ps) of
             Inl e \<Rightarrow> Inl e
           | Inr category_sorted \<Rightarrow>
               Inr (map (display c)
                      (py_slice_to limit
                         (take 3 (sort_by_similarity (visual_candidates eng sims c ps)) @
                          take 3 category_sorted))))"
proof (cases "list_ex (\<lambda>p. product_type p = Null) ps")
  case True
  then have "\<exists>p\<in>set ps. product_type p = Null"
    by (simp add: list_ex_iff)
  then obtain pre x post where "ps = pre @ x # post" "product_type x = Null"
    "\<forall>p\<in>set pre. product_type p \<noteq> Null"
    by (rule first_null_split)
  then show ?thesis
    using True by (simp add: visual_search_def match_loop_raises del: match_loop.simps)
next
  case False
  then have "\<forall>p\<in>set ps. product_type p \<noteq> Null"
    by (simp add: list_ex_iff)
  then show ?thesis
    using False
    by (simp add: visual_search_def match_loop_exact Let_def split: sum.split del: match_loop.simps)
qed


lemma candidates_sound:
  "map product_id (visual_candidates eng sims c ps) = map product_id (filter (is_visual sims) ps)"
  "map product_id (category_candidates eng sims c ps) =
     map product_id (filter (\<lambda>p. \<not> is_visual sims p \<and> category_matches c p) ps)"
  "\<forall>p\<in>set (visual_candidates eng sims c ps).
     similarity_score p = Some (get_similarity sims (product_id p)) \<and>
     visual_match p = Some True \<and> is_visual sims p"
  "\<forall>p\<in>set (category_candidates eng sims c ps).
     similarity_score p = Some (get_similarity sims (product_id p)) \<and>
     visual_match p = Some False \<and> \<not> is_visual sims p \<and> category_matches c p"
  by (auto simp: visual_candidates_def category_candidates_def mark_fields is_visual_def
      category_matches_def)

lemma sort_by_ranking_Inr:
  "sort_by_ranking cs = Inr C \<Longrightarrow> C = sort_key (\<lambda>p. - ranking_of p) cs"
  by (auto simp: sort_by_ranking_def split: if_splits)

lemma visual_search_shape:
  assumes run: "visual_search eng sims c limit ps = Inr result"
  shows "\<exists>vs cs. result = vs @ cs \<and> length vs \<le> 3 \<and> length cs \<le> 3 \<and>
           (\<forall>p\<in>set vs. visual_match p = Some True \<and> is_visual sims p \<and>
              similarity_score p = Some (get_similarity sims (product_id p))) \<and>
           (\<forall>p\<in>set cs. visual_match p = Some False \<and> \<not> is_visual sims p \<and>
              similarity_score p = Some (get_similarity sims (product_id p)) \<and>
              category_matches c p) \<and>
           sorted_wrt (\<lambda>a b. score_of b \<le> score_of a) vs \<and>
           sorted_wrt (\<lambda>a b. ranking_of b \<le> ranking_of a) cs \<and>
           (0 \<le> limit \<longrightarrow> length result \<le> nat limit) \<and>
           (distinct (map product_id ps) \<longrightarrow> distinct (map product_id result))"
proof -
  define m where "m = visual_candidates eng sims c ps"
  define cs0 where "cs0 = category_candidates eng sims c ps"
  from run obtain C where sr: "sort_by_ranking cs0 = Inr C"
    and res0: "result = map (display c) (py_slice_to limit
        (take 3 (sort_by_similarity m) @ take 3 C))"
    unfolding visual_search_exact m_def cs0_def
    by (auto split: if_splits sum.splits)
  from sr have C: "C = sort_key (\<lambda>p. - ranking_of p) cs0"
    by (rule sort_by_ranking_Inr)
  define M where "M = sort_by_similarity m"
  define A where "A = take 3 M"
  define B where "B = take 3 C"
  from py_slice_to_take [of limit "A @ B"] obtain k where
    k: "py_slice_to limit (A @ B) = take k (A @ B)" and kl: "0 \<le> limit \<longrightarrow> k = nat limit"
    by blast
  have res: "result = map (display c) (take k A) @ map (display c) (take (k - length A) B)"
    using res0 k by (simp add: M_def A_def B_def)
  note snd = candidates_sound [of eng sims c ps, folded m_def cs0_def]
  have setA: "set (take k A) \<subseteq> set m"
    using set_take_subset [of k A] set_take_subset [of 3 M]
    by (auto simp: A_def M_def sort_by_similarity_def)
  have setB: "set (take (k - length A) B) \<subseteq> set cs0"
    using set_take_subset [of "k - length A" B] set_take_subset [of 3 C]
    by (auto simp: B_def C)
  have p1: "length (map (display c) (take k A)) \<le> 3"
    and p2: "length (map (display c) (take (k - length A) B)) \<le> 3"
    by (simp_all add: A_def B_def)
  have p3: "\<forall>p\<in>set (map (display c) (take k A)). visual_match p = Some True \<and> is_visual sims p \<and>
              similarity_score p = Some (get_similarity sims (product_id p))"
    using setA snd(3) by (auto simp: display_fields display_derived)
  have p4: "\<forall>p\<in>set (map (display c) (take (k - length A) B)). visual_match p = Some False \<and>
              \<not> is_visual sims p \<and>
              similarity_score p = Some (get_similarity sims (product_id p)) \<and>
              category_matches c p"
    using setB snd(4) by (auto simp: display_fields display_derived)
  have "sorted_wrt (\<lambda>a b. score_of b \<le> score_of a) M"
    unfolding M_def sort_by_similarity_def by (rule sorted_desc_sort_key)
  then have "sorted_wrt (\<lambda>a b. score_of b \<le> score_of a) (take k A)"
    unfolding A_def by (intro sorted_wrt_take)
  then have p5: "sorted_wrt (\<lambda>a b. score_of b \<le> score_of a) (map (display c) (take k A))"
    by (simp add: sorted_wrt_map display_derived)
  have "sorted_wrt (\<lambda>a b. ranking_of b \<le> ranking_of a) C"
    unfolding C by (rule sorted_desc_sort_key)
  then have "sorted_wrt (\<lambda>a b. ranking_of b \<le> ranking_of a) (take (k - length A) B)"
    unfolding B_def by (intro sorted_wrt_take)
  then have p6: "sorted_wrt (\<lambda>a b. ranking_of b \<le> ranking_of a)
      (map (display c) (take (k - length A) B))"
    by (simp add: sorted_wrt_map display_derived)
  have p7: "0 \<le> limit \<longrightarrow> length result \<le> nat limit"
    using kl res by auto
  have p8: "distinct (map product_id result)" if d: "distinct (map product_id ps)"
  proof -
    have "distinct (map product_id m)"
      using snd(1) d by (simp add: distinct_map_filter)
    then have "distinct (map product_id M)"
      unfolding M_def sort_by_similarity_def by (rule distinct_ids_sort_key)
    then have "distinct (take k (take 3 (map product_id M)))"
      by (intro distinct_take)
    then have dA: "distinct (map product_id (take k A))"
      by (simp add: A_def take_map)
    have "distinct (map product_id cs0)"
      using snd(2) d by (simp add: distinct_map_filter)
    then have "distinct (map product_id C)"
      unfolding C by (rule distinct_ids_sort_key)
    then have "distinct (take (k - length A) (take 3 (map product_id C)))"
      by (intro distinct_take)
    then have dB: "distinct (map product_id (take (k - length A) B))"
      by (simp add: B_def take_map)
    have "\<forall>p\<in>set (take k A). 0.3 < get_similarity sims (product_id p)"
      using setA snd(3) by (auto simp: is_visual_def)
    moreover have "\<forall>p\<in>set (take (k - length A) B). \<not> 0.3 < get_similarity sims (product_id p)"
      using setB snd(4) by (auto simp: is_visual_def)
    ultimately have "set (map product_id (take k A)) \<inter>
        set (map product_id (take (k - length A) B)) = {}"
      by auto
    then show ?thesis
      using dA dB by (simp add: res display_fields comp_def)
  qed
  show ?thesis
    using res p1 p2 p3 p4 p5 p6 p7 p8 by blast
qed



text \<open>
  Claim C5, amended. In the image-similarity path the result is, row for row: the
  candidates above 0.3 sorted by similarity descending, the first 3 of them, followed by
  the other candidates whose category matches the detected one sorted by product ranking
  descending (not by composite score), the first 3 of them, the concatenation cut to the
  limit and completed for display; it is empty when a product type is NULL or the ranking
  sort fails. Hence the visual matches come first, each group is ordered and has at most 3
  products, a non-negative limit bounds the length, and no product id appears twice when
  the fetched rows have distinct ids.
\<close>

theorem combined_matches_order:
  assumes db: "mysql_db = Some db"
    and up: "uploaded_image_bytes = Some image_bytes" and ne: "image_bytes \<noteq> []"
    and rows: "image_products_query db = Fetched all_products" and some: "all_products \<noteq> []"
    and imgs: "get_product_images_from_db db (map product_id all_products) = product_images"
    and have_images: "product_images \<noteq> []"
    and sims: "similarities = calculate_visual_similarity eng image_bytes product_images"
    and cat: "category = detect_product_category description"
  shows "find_similar_products eng mysql_db description uploaded_image_bytes limit =
           (if list_ex (\<lambda>p. product_type p = Null) all_products then []
            else case sort_by_ranking (category_candidates eng similarities category all_products) of
                   Inl e \<Rightarrow> []
                 | Inr category_sorted \<Rightarrow>
                     map (display category)
                       (py_slice_to limit
                          (take 3 (sort_by_similarity
                             (visual_candidates eng similarities category all_products)) @
                           take 3 category_sorted))) \<and>
         (\<exists>vs cs.
           find_similar_products eng mysql_db description uploaded_image_bytes limit = vs @ cs \<and>
           length vs \<le> 3 \<and> length cs \<le> 3 \<and>
           (\<forall>p\<in>set vs. visual_match p = Some True) \<and>
           (\<forall>p\<in>set cs. visual_match p = Some False \<and> category_matches category p) \<and>
           sorted_wrt (\<lambda>a b. score_of b \<le> score_of a) vs \<and>
           sorted_wrt (\<lambda>a b. ranking_of b \<le> ranking_of a) cs \<and>
           (0 \<le> limit \<longrightarrow>
              length (find_similar_products eng mysql_db description uploaded_image_bytes limit)
                \<le> nat limit) \<and>
           (distinct (map product_id all_products) \<longrightarrow>
              distinct (map product_id
                (find_similar_products eng mysql_db description uploaded_image_bytes limit))))"
proof -
  let ?r = "find_similar_products eng mysql_db description uploaded_image_bytes limit"
  have path: "?r = (case visual_search eng similarities category limit all_products of
              Inl e \<Rightarrow> [] | Inr found \<Rightarrow> found)"
    unfolding sims cat
    by (rule find_similar_products_visual_path [OF db up ne rows some imgs have_images])
  have exact: "?r =
           (if list_ex (\<lambda>p. product_type p = Null) all_products then []
            else case sort_by_ranking (category_candidates eng similarities category all_products) of
                   Inl e \<Rightarrow> []
                 | Inr category_sorted \<Rightarrow>
                     map (display category)
                       (py_slice_to limit
                          (take 3 (sort_by_similarity
                             (visual_candidates eng similarities category all_products)) @
                           take 3 category_sorted)))"
    unfolding path visual_search_exact by (simp split: sum.split)
  have shape: "\<exists>vs cs. ?r = vs @ cs \<and>
           length vs \<le> 3 \<and> length cs \<le> 3 \<and>
           (\<forall>p\<in>set vs. visual_match p = Some True) \<and>
           (\<forall>p\<in>set cs. visual_match p = Some False \<and> category_matches category p) \<and>
           sorted_wrt (\<lambda>a b. score_of b \<le> score_of a) vs \<and>
           sorted_wrt (\<lambda>a b. ranking_of b \<le> ranking_of a) cs \<and>
           (0 \<le> limit \<longrightarrow> length ?r \<le> nat limit) \<and>
           (distinct (map product_id all_products) \<longrightarrow> distinct (map product_id ?r))"
  proof (cases "visual_search eng similarities category limit all_products")
    case (Inl e)
    then have "?r = []" using path by simp
    then show ?thesis by simp
  next
    case (Inr result)
    then have r: "?r = result" using path by simp
    from visual_search_shape [OF Inr] show ?thesis
      unfolding r by blast
  qed
  show ?thesis
    using exact shape by blast
qed

lemma example_category: "detect_product_category ''red shirt'' = ''shirt''"
  by code_simp

lemma example_similarities:
  "get_similarity (calculate_visual_similarity example_engine ''upload''
      [(1, ''image 1''), (3, ''image 3''), (4, ''image 4'')]) 1 = 0.3"
  "get_similarity (calculate_visual_similarity example_engine ''upload''
      [(1, ''image 1''), (3, ''image 3''), (4, ''image 4'')]) 2 = 0"
  "get_similarity (calculate_visual_similarity example_engine ''upload''
      [(1, ''image 1''), (3, ''image 3''), (4, ''image 4'')]) 3 = 0.30001"
  "get_similarity (calculate_visual_similarity example_engine ''upload''
      [(1, ''image 1''), (3, ''image 3''), (4, ''image 4'')]) 4 = 0.9"
  by (simp_all add: calculate_visual_similarity_def example_engine_def get_similarity_def)

lemma crowded_similarities:
  "get_similarity (calculate_visual_similarity example_engine ''upload''
      [(1, ''photo 1''), (2, ''photo 2''), (3, ''photo 3''), (4, ''photo 4'')]) 1 = 0.4"
  "get_similarity (calculate_visual_similarity example_engine ''upload''
      [(1, ''photo 1''), (2, ''photo 2''), (3, ''photo 3''), (4, ''photo 4'')]) 2 = 0.5"
  "get_similarity (calculate_visual_similarity example_engine ''upload''
      [(1, ''photo 1''), (2, ''photo 2''), (3, ''photo 3''), (4, ''photo 4'')]) 3 = 0.6"
  "get_similarity (calculate_visual_similarity example_engine ''upload''
      [(1, ''photo 1''), (2, ''photo 2''), (3, ''photo 3''), (4, ''photo 4'')]) 4 = 0.7"
  by (simp_all add: calculate_visual_similarity_def example_engine_def get_similarity_def)

lemma other_similarities:
  "get_similarity (calculate_visual_similarity example_engine ''upload'' [(4, ''image 4'')]) 4 = 0.9"
  "get_similarity (calculate_visual_similarity example_engine ''upload'' [(3, ''image 3'')]) 3
     = 0.30001"
  "get_similarity (calculate_visual_similarity example_engine ''upload'' [(3, ''image 3'')]) 5 = 0"
  by (simp_all add: calculate_visual_similarity_def example_engine_def get_similarity_def)

lemma example_rows:
  "product_id plain_shirt = 1" "product_id red_shirt = 2" "product_id felt_hat = 3"
  "product_id tote_bag = 4" "product_id untyped_product = 5"
  "product_type plain_shirt = Val ''shirt''" "product_type red_shirt = Val ''shirt''"
  "product_type felt_hat = Val ''hat''" "product_type tote_bag = Val ''bag''"
  "product_type untyped_product = Null"
  "product_ranking plain_shirt = Val 5" "product_ranking red_shirt = Val 1"
  "product_ranking felt_hat = Val 2" "product_ranking tote_bag = Val 3"
  "visual_match felt_hat = None" "similarity_score felt_hat = None"
  by (simp_all add: plain_shirt_def red_shirt_def felt_hat_def tote_bag_def untyped_product_def
      example_product_def)

lemma example_matches:
  "category_matches ''shirt'' plain_shirt" "category_matches ''shirt'' red_shirt"
  "\<not> category_matches ''shirt'' felt_hat" "\<not> category_matches ''shirt'' tote_bag"
proof -
  have l: "lower ''shirt'' = ''shirt''" "lower ''hat'' = ''hat''" "lower ''bag'' = ''bag''"
    by (simp_all add: lower_def lower_char_def upper_letters_def lower_letters_def)
  show "category_matches ''shirt'' plain_shirt" "category_matches ''shirt'' red_shirt"
    "\<not> category_matches ''shirt'' felt_hat" "\<not> category_matches ''shirt'' tote_bag"
    by (simp_all add: category_matches_def example_rows l py_in_sublist sublist_Cons_right)
qed

lemma example_path:
  "Some example_product_db = Some example_product_db"
  "Some ''upload'' = Some ''upload''"
  "''upload'' \<noteq> []"
  "image_products_query example_product_db = Fetched [plain_shirt, red_shirt, felt_hat, tote_bag]"
  "[plain_shirt, red_shirt, felt_hat, tote_bag] \<noteq> []"
  "get_product_images_from_db example_product_db
     (map product_id [plain_shirt, red_shirt, felt_hat, tote_bag]) =
     [(1, ''image 1''), (3, ''image 3''), (4, ''image 4'')]"
  "[(1::int, ''image 1''), (3, ''image 3''), (4, ''image 4'')] \<noteq> []"
  by (simp_all add: example_product_db_def)

lemma example_search:
  "find_similar_products example_engine (Some example_product_db) ''red shirt'' (Some ''upload'') 6 =
     [display ''shirt'' (tote_bag\<lparr>similarity_score := Some 0.9, visual_match := Some True,
        match_reason := Some ''Visual similarity: %''\<rparr>),
      display ''shirt'' (felt_hat\<lparr>similarity_score := Some 0.30001, visual_match := Some True,
        match_reason := Some ''Visual similarity: %''\<rparr>),
      display ''shirt'' (plain_shirt\<lparr>similarity_score := Some 0.3, visual_match := Some False,
        match_reason := Some ''Category match: shirt''\<rparr>),
      display ''shirt'' (red_shirt\<lparr>similarity_score := Some 0, visual_match := Some False,
        match_reason := Some ''Category match: shirt''\<rparr>)]"
proof -
  let ?S = "calculate_visual_similarity example_engine ''upload''
      [(1, ''image 1''), (3, ''image 3''), (4, ''image 4'')]"
  have fp: "format_percent example_engine x = ''%''" for x
    by (simp add: example_engine_def)
  have vc: "visual_candidates example_engine ?S ''shirt'' [plain_shirt, red_shirt, felt_hat, tote_bag] =
      [felt_hat\<lparr>similarity_score := Some 0.30001, visual_match := Some True,
              match_reason := Some ''Visual similarity: %''\<rparr>,
       tote_bag\<lparr>similarity_score := Some 0.9, visual_match := Some True,
              match_reason := Some ''Visual similarity: %''\<rparr>]"
    by (simp add: visual_candidates_def is_visual_def mark_def Let_def example_rows
        example_similarities fp)
  have cc: "category_candidates example_engine ?S ''shirt''
      [plain_shirt, red_shirt, felt_hat, tote_bag] =
      [plain_shirt\<lparr>similarity_score := Some 0.3, visual_match := Some False,
              match_reason := Some ''Category match: shirt''\<rparr>,
       red_shirt\<lparr>similarity_score := Some 0, visual_match := Some False,
              match_reason := Some ''Category match: shirt''\<rparr>]"
    by (simp add: category_candidates_def is_visual_def mark_def Let_def example_rows
        example_similarities example_matches)
  have vs: "visual_search example_engine ?S ''shirt'' 6 [plain_shirt, red_shirt, felt_hat, tote_bag] =
    Inr [display ''shirt'' (tote_bag\<lparr>similarity_score := Some 0.9, visual_match := Some True,
        match_reason := Some ''Visual similarity: %''\<rparr>),
      display ''shirt'' (felt_hat\<lparr>similarity_score := Some 0.30001, visual_match := Some True,
        match_reason := Some ''Visual similarity: %''\<rparr>),
      display ''shirt'' (plain_shirt\<lparr>similarity_score := Some 0.3, visual_match := Some False,
        match_reason := Some ''Category match: shirt''\<rparr>),
      display ''shirt'' (red_shirt\<lparr>similarity_score := Some 0, visual_match := Some False,
        match_reason := Some ''Category match: shirt''\<rparr>)]"
    unfolding visual_search_exact vc cc
    by (simp add: sort_by_ranking_def sort_by_similarity_def score_of_def ranking_of_def
        example_rows py_slice_to_def)
  show ?thesis
    using find_similar_products_visual_path [OF example_path, of example_engine "''red shirt''" 6]
    by (simp add: example_category vs)
qed

lemma crowded_path:
  "Some crowded_product_db = Some crowded_product_db"
  "Some ''upload'' = Some ''upload''"
  "''upload'' \<noteq> []"
  "image_products_query crowded_product_db = Fetched [plain_shirt, red_shirt, felt_hat, tote_bag]"
  "[plain_shirt, red_shirt, felt_hat, tote_bag] \<noteq> []"
  "get_product_images_from_db crowded_product_db
     (map product_id [plain_shirt, red_shirt, felt_hat, tote_bag]) =
     [(1, ''photo 1''), (2, ''photo 2''), (3, ''photo 3''), (4, ''photo 4'')]"
  "[(1::int, ''photo 1''), (2, ''photo 2''), (3, ''photo 3''), (4, ''photo 4'')] \<noteq> []"
  by (simp_all add: crowded_product_db_def)

lemma crowded_search:
  "map product_id (find_similar_products example_engine (Some crowded_product_db) ''red shirt''
     (Some ''upload'') 6) = [4, 3, 2]"
proof -
  let ?S = "calculate_visual_similarity example_engine ''upload''
      [(1, ''photo 1''), (2, ''photo 2''), (3, ''photo 3''), (4, ''photo 4'')]"
  have vc: "map (\<lambda>p. (product_id p, score_of p))
      (visual_candidates example_engine ?S ''shirt'' [plain_shirt, red_shirt, felt_hat, tote_bag]) =
      [(1, 0.4), (2, 0.5), (3, 0.6), (4, 0.7)]"
    by (simp add: visual_candidates_def is_visual_def mark_fields score_of_def example_rows
        crowded_similarities)
  have cc: "category_candidates example_engine ?S ''shirt''
      [plain_shirt, red_shirt, felt_hat, tote_bag] = []"
    by (simp add: category_candidates_def is_visual_def example_rows crowded_similarities)
  have sorted_ids: "map product_id (sort_key (\<lambda>p. - score_of p) xs) = [4, 3, 2, 1]"
    if "map (\<lambda>p. (product_id p, score_of p)) xs = [(1, 0.4), (2, 0.5), (3, 0.6), (4, 0.7)]"
    for xs :: "product list"
  proof -
    from that obtain a b c d where xs: "xs = [a, b, c, d]"
      and "product_id a = 1" "score_of a = 0.4" "product_id b = 2" "score_of b = 0.5"
      "product_id c = 3" "score_of c = 0.6" "product_id d = 4" "score_of d = 0.7"
      by (auto simp: map_eq_Cons_conv)
    then show ?thesis by simp
  qed
  have "map product_id (take 3 (sort_by_similarity
      (visual_candidates example_engine ?S ''shirt'' [plain_shirt, red_shirt, felt_hat, tote_bag])))
      = [4, 3, 2]"
    using sorted_ids [OF vc] by (simp add: sort_by_similarity_def take_map [symmetric])
  then have "map product_id (case visual_search example_engine ?S ''shirt'' 6
      [plain_shirt, red_shirt, felt_hat, tote_bag] of Inl e \<Rightarrow> [] | Inr found \<Rightarrow> found) = [4, 3, 2]"
    unfolding visual_search_exact cc
    by (simp add: sort_by_ranking_def example_rows py_slice_to_def display_fields comp_def)
  then show ?thesis
    using find_similar_products_visual_path [OF crowded_path, of example_engine "''red shirt''" 6]
    by (simp add: example_category)
qed

lemma duplicate_search:
  "map product_id (find_similar_products example_engine (Some duplicate_rows_db) ''red shirt''
     (Some ''upload'') 6) = [4, 4]"
proof -
  let ?S = "calculate_visual_similarity example_engine ''upload'' [(4, ''image 4'')]"
  have path: "Some duplicate_rows_db = Some duplicate_rows_db" "Some ''upload'' = Some ''upload''"
    "''upload'' \<noteq> []" "image_products_query duplicate_rows_db = Fetched [tote_bag, tote_bag]"
    "[tote_bag, tote_bag] \<noteq> []"
    "get_product_images_from_db duplicate_rows_db (map product_id [tote_bag, tote_bag]) =
       [(4, ''image 4'')]"
    "[(4::int, ''image 4'')] \<noteq> []"
    by (simp_all add: duplicate_rows_db_def)
  have vc: "map product_id (visual_candidates example_engine ?S ''shirt'' [tote_bag, tote_bag]) = [4, 4]"
    by (simp add: visual_candidates_def is_visual_def mark_fields example_rows other_similarities)
  have cc: "category_candidates example_engine ?S ''shirt'' [tote_bag, tote_bag] = []"
    by (simp add: category_candidates_def is_visual_def example_rows other_similarities)
  have two: "map product_id (sort_key f xs) = [4, 4]" if "map product_id xs = [4, 4]"
    for xs :: "product list" and f :: "product \<Rightarrow> real"
  proof -
    from that obtain a b where "xs = [a, b]" "product_id a = 4" "product_id b = 4"
      by (auto simp: map_eq_Cons_conv)
    then show ?thesis by (cases "f a \<le> f b") simp_all
  qed
  have "map product_id (take 3 (sort_by_similarity
      (visual_candidates example_engine ?S ''shirt'' [tote_bag, tote_bag]))) = [4, 4]"
    using two [OF vc] by (simp add: sort_by_similarity_def take_map [symmetric])
  then have "map product_id (case visual_search example_engine ?S ''shirt'' 6
      [tote_bag, tote_bag] of Inl e \<Rightarrow> [] | Inr found \<Rightarrow> found) = [4, 4]"
    unfolding visual_search_exact cc
    by (simp add: sort_by_ranking_def example_rows py_slice_to_def display_fields comp_def)
  then show ?thesis
    using find_similar_products_visual_path [OF path, of example_engine "''red shirt''" 6]
    by (simp add: example_category)
qed





text \<open>
  Claim C5, amended, at the example catalog and at the catalog with four visual matches, of
  which the three most similar are returned.
\<close>

theorem combined_matches_order_witness:
  "map product_id (find_similar_products example_engine (Some example_product_db) ''red shirt''
        (Some ''upload'') 6) = [4, 3, 1, 2] \<and>
   map ranking_of (find_similar_products example_engine (Some example_product_db) ''red shirt''
        (Some ''upload'') 6) = [3, 2, 5, 1] \<and>
   distinct (map product_id (find_similar_products example_engine (Some example_product_db)
        ''red shirt'' (Some ''upload'') 6)) \<and>
   map product_id (find_similar_products example_engine (Some crowded_product_db) ''red shirt''
        (Some ''upload'') 6) = [4, 3, 2]"
proof -
  have "distinct (map product_id [plain_shirt, red_shirt, felt_hat, tote_bag])"
    by (simp add: example_rows)
  moreover have "map product_id (find_similar_products example_engine (Some example_product_db)
      ''red shirt'' (Some ''upload'') 6) = [4, 3, 1, 2]"
    and "map ranking_of (find_similar_products example_engine (Some example_product_db)
      ''red shirt'' (Some ''upload'') 6) = [3, 2, 5, 1]"
    by (simp_all add: example_search display_fields display_derived ranking_of_def example_rows)
  ultimately show ?thesis
    using combined_matches_order [OF example_path refl refl, of example_engine "''red shirt''" 6]
      combined_matches_order [OF crowded_path refl refl, of example_engine "''red shirt''" 6]
      crowded_search
    by simp
qed

text \<open>
  Claim C5 fails as stated. Among the non-visual matches product 1 (ranking 5, composite
  score 11/20) comes before product 2 (ranking 1, composite score 19/27); and when the
  query returns a row twice (a product with two inventory rows), its id is returned twice.
\<close>

theorem composite_order_counterexample:
  "map product_id (find_similar_products example_engine (Some example_product_db) ''red shirt''
        (Some ''upload'') 6) = [4, 3, 1, 2] \<and>
   map visual_match (find_similar_products example_engine (Some example_product_db) ''red shirt''
        (Some ''upload'') 6) = [Some True, Some True, Some False, Some False] \<and>
   calculate_advanced_similarity example_similarity fashion_keywords_set ''red shirt'' plain_shirt
     = 11 / 20 \<and>
   calculate_advanced_similarity example_similarity fashion_keywords_set ''red shirt'' red_shirt
     = 19 / 27 \<and>
   calculate_advanced_similarity example_similarity fashion_keywords_set ''red shirt'' plain_shirt
     < calculate_advanced_similarity example_similarity fashion_keywords_set ''red shirt'' red_shirt \<and>
   map product_id (find_similar_products example_engine (Some duplicate_rows_db) ''red shirt''
        (Some ''upload'') 6) = [4, 4]"
proof -
  have k: "extract_keywords fashion_keywords_set ''red shirt'' = [''shirt'', ''red'']"
    by code_simp
  have l: "lower ''red shirt'' = ''red shirt''" "lower ''Plain  shirt'' = ''plain  shirt''"
    "lower ''Red Shirt  shirt'' = ''red shirt  shirt''" "lower ''shirt'' = ''shirt''"
    "lower ''red'' = ''red''" "lower ''Plain '' = ''plain ''" "lower ''Red Shirt '' = ''red shirt ''"
    by (simp_all add: lower_def lower_char_def upper_letters_def lower_letters_def)
  have kw: "calculate_keyword_similarity fashion_keywords_set ''red shirt'' plain_shirt = 1 / 2"
    "calculate_keyword_similarity fashion_keywords_set ''red shirt'' red_shirt = 1"
    by (simp_all add: calculate_keyword_similarity_def k plain_shirt_def red_shirt_def
        example_product_def l py_in_sublist sublist_Cons_right)
  have se: "calculate_semantic_similarity example_similarity ''red shirt'' plain_shirt = 0.5"
    "calculate_semantic_similarity example_similarity ''red shirt'' red_shirt = 0.5"
    by (simp_all add: calculate_semantic_similarity_def example_similarity_def plain_shirt_def
        red_shirt_def example_product_def strip_def is_space_def)
  have ca: "calculate_category_similarity ''red shirt'' plain_shirt = 1"
    "calculate_category_similarity ''red shirt'' red_shirt = 1"
    by (simp_all add: calculate_category_similarity_def plain_shirt_def red_shirt_def
        example_product_def l py_in_sublist sublist_Cons_right)
  have vi: "calculate_text_visual_similarity ''red shirt'' plain_shirt = 0"
    "calculate_text_visual_similarity ''red shirt'' red_shirt = 1 / 27"
    by (simp_all add: calculate_text_visual_similarity_def plain_shirt_def red_shirt_def
        example_product_def l count_matches_def colors_def patterns_def styles_def py_in_sublist
        sublist_Cons_right)
  have "map product_id (find_similar_products example_engine (Some example_product_db)
      ''red shirt'' (Some ''upload'') 6) = [4, 3, 1, 2]"
    and "map visual_match (find_similar_products example_engine (Some example_product_db)
      ''red shirt'' (Some ''upload'') 6) = [Some True, Some True, Some False, Some False]"
    by (simp_all add: example_search display_fields plain_shirt_def red_shirt_def felt_hat_def
        tote_bag_def)
  then show ?thesis
    by (simp add: calculate_advanced_similarity_def kw se ca vi duplicate_search)
qed

section \<open>Properties of the knowledge base\<close>

text \<open>
  Claim C6. The knowledge query returns the empty list, and raises nothing, when the
  collection is unavailable, when the embedding of the query or the lookup raises, when
  the lookup answers without documents (the answer for an empty collection), and more
  generally whenever anything in its body raises.
\<close>

theorem search_knowledge_empty_not_error:
  "(vector_db = None \<longrightarrow> search_knowledge env vector_db query_text n_results = []) \<and>
   (\<forall>collection e. vector_db = Some collection \<and> encode env query_text = Inl e \<longrightarrow>
      search_knowledge env vector_db query_text n_results = []) \<and>
   (\<forall>collection v e. vector_db = Some collection \<and> encode env query_text = Inr v \<and>
        query env collection [v] n_results = Inl e \<longrightarrow>
      search_knowledge env vector_db query_text n_results = []) \<and>
   (\<forall>collection v results. vector_db = Some collection \<and> encode env query_text = Inr v \<and>
        query env collection [v] n_results = Inr results \<and> no_documents results \<longrightarrow>
      search_knowledge env vector_db query_text n_results = []) \<and>
   (\<forall>collection e. vector_db = Some collection \<and>
        search_knowledge_body env collection query_text n_results = Inl e \<longrightarrow>
      search_knowledge env vector_db query_text n_results = [])"
  by (auto simp: search_knowledge_def search_knowledge_body_def no_documents_def
      split: option.splits list.splits sum.splits)

lemma render_documents_ids:
  "render_documents env its = Inr docs \<Longrightarrow> map doc_id docs = map source_id its"
proof (induction its arbitrary: docs)
  case Nil
  then show ?case by simp
next
  case (Cons item rest)
  from Cons.prems obtain d ds where d: "source_document env item = Inr d"
    and ds: "render_documents env rest = Inr ds" and docs: "docs = d # ds"
    by (auto split: sum.splits)
  from d have "doc_id d = source_id item"
    by (auto simp: source_document_def Let_def split: sum.splits)
  then show ?case using Cons.IH [OF ds] docs by simp
qed

lemma add_batches_keeps:
  assumes keep: "keeping_store env ids"
  shows "add_batches env bs c = (c', None) \<Longrightarrow>
           ids c \<union> (\<Union>b\<in>set bs. doc_id ` set b) \<subseteq> ids c'"
proof (induction bs arbitrary: c)
  case Nil
  then show ?case by simp
next
  case (Cons b bs)
  from Cons.prems obtain c1 where a: "add env b c = (c1, None)"
    and r: "add_batches env bs c1 = (c', None)"
    by (auto split: prod.splits option.splits)
  from keep a have "ids c \<union> doc_id ` set b \<subseteq> ids c1"
    unfolding keeping_store_def by blast
  moreover from Cons.IH [OF r] have "ids c1 \<union> (\<Union>b\<in>set bs. doc_id ` set b) \<subseteq> ids c'" .
  ultimately show ?case by auto
qed

lemma add_batches_again:
  assumes keep: "keeping_store env ids"
  shows "(\<Union>b\<in>set bs. doc_id ` set b) \<subseteq> ids c \<Longrightarrow> add_batches env bs c = (c, None)"
proof (induction bs)
  case Nil
  then show ?case by simp
next
  case (Cons b bs)
  then have "doc_id ` set b \<subseteq> ids c" by auto
  with keep have "add env b c = (c, None)"
    unfolding keeping_store_def by blast
  moreover have "add_batches env bs c = (c, None)"
    using Cons by auto
  ultimately show ?case by simp
qed

text \<open>
  Claim C8. On a clearing store or a keeping store, a rebuild that follows a successful
  rebuild from the same sources succeeds and leaves the collection exactly as the first
  one left it, so every query with every k is answered alike after both; and the rebuild
  gives each source the document id computed from its key alone (page path, feature
  position, policy type, product id, category name).
\<close>

theorem rebuild_idempotent:
  assumes contract: "clearing_store env fresh \<or> keeping_store env ids"
    and first: "build_knowledge_embeddings env src (Some c) = (Some c1, None)"
  shows "build_knowledge_embeddings env src (Some c1) = (Some c1, None) \<and>
         (\<forall>query_text k.
            search_knowledge env (fst (build_knowledge_embeddings env src (Some c1))) query_text k =
            search_knowledge env (Some c1) query_text k) \<and>
         (\<exists>docs. render_documents env (source_items src) = Inr docs \<and>
            map doc_id docs = map source_id (source_items src))"
proof -
  from first obtain docs where docs: "render_documents env (source_items src) = Inr docs"
    and added: "add_batches env (batches 100 docs) (fst (delete_where env c)) = (c1, None)"
    by (auto simp: build_knowledge_embeddings_def Let_def split: sum.splits prod.splits)
  have again: "build_knowledge_embeddings env src (Some c1) = (Some c1, None)"
    using contract
  proof
    assume "clearing_store env fresh"
    then have "fst (delete_where env c1) = fst (delete_where env c)"
      by (simp add: clearing_store_def)
    then show ?thesis
      using docs added by (simp add: build_knowledge_embeddings_def)
  next
    assume keep: "keeping_store env ids"
    then have same: "fst (delete_where env c1) = c1"
      by (simp add: keeping_store_def)
    from add_batches_keeps [OF keep added]
    have "(\<Union>b\<in>set (batches 100 docs). doc_id ` set b) \<subseteq> ids c1"
      by simp
    from add_batches_again [OF keep this]
    show ?thesis
      using docs same by (simp add: build_knowledge_embeddings_def)
  qed
  moreover have "map doc_id docs = map source_id (source_items src)"
    using docs by (rule render_documents_ids)
  ultimately show ?thesis
    using docs by simp
qed

lemma example_render:
  "render_documents example_knowledge_env (source_items example_sources) = Inr example_documents"
  by code_simp

text \<open>
  Claim C6 on the example store: no collection, a failing embedding, a failing lookup and
  an empty collection.
\<close>

theorem search_knowledge_empty_not_error_witness:
  "search_knowledge example_knowledge_env None ''returns'' 5 = [] \<and>
   search_knowledge example_knowledge_env (Some []) [] 5 = [] \<and>
   search_knowledge example_knowledge_env (Some []) ''returns'' 0 = [] \<and>
   search_knowledge example_knowledge_env (Some []) ''returns'' 5 = [] \<and>
   no_documents \<lparr>documents = Some [[]], metadatas = Some [[]], distances = Some (Some [[]])\<rparr>"
proof -
  have e: "encode example_knowledge_env [] = Inl OtherError"
    "encode example_knowledge_env ''returns'' = Inr [1]"
    by (simp_all add: example_knowledge_env_def)
  have q: "query example_knowledge_env [] [[1]] 0 = Inl OtherError"
    "query example_knowledge_env [] [[1]] 5 =
       Inr \<lparr>documents = Some [[]], metadatas = Some [[]], distances = Some (Some [[]])\<rparr>"
    by (simp_all add: example_knowledge_env_def)
  have n: "no_documents \<lparr>documents = Some [[]], metadatas = Some [[]], distances = Some (Some [[]])\<rparr>"
    by (simp add: no_documents_def)
  show ?thesis
    using search_knowledge_empty_not_error [of None example_knowledge_env "''returns''" 5]
      search_knowledge_empty_not_error [of "Some []" example_knowledge_env "[]" 5]
      search_knowledge_empty_not_error [of "Some []" example_knowledge_env "''returns''" 0]
      search_knowledge_empty_not_error [of "Some []" example_knowledge_env "''returns''" 5]
      e q n
    by simp
qed

lemma example_store_keeps:
  "keeping_store example_knowledge_env (\<lambda>c. set (map doc_id c))"
proof -
  have "filter (\<lambda>d. doc_id d \<notin> doc_id ` set c) batch = []" if "doc_id ` set batch \<subseteq> doc_id ` set c"
    for batch c :: "document list"
    using that by (auto simp: filter_empty_conv)
  then show ?thesis
    by (auto simp: keeping_store_def example_knowledge_env_def)
qed

lemma example_batches: "batches 100 example_documents = [example_documents]"
proof -
  have "length example_documents = 5"
    by (simp add: example_documents_def)
  then have "take 100 example_documents = example_documents"
    and "drop 100 example_documents = []" and "example_documents \<noteq> []"
    by auto
  then show ?thesis
    by (subst batches.simps, subst batches.simps) simp
qed

lemma example_first_build:
  "build_knowledge_embeddings example_knowledge_env example_sources (Some []) =
     (Some example_documents, None)"
proof -
  have "add_batches example_knowledge_env [example_documents] [] = (example_documents, None)"
    by (simp add: example_knowledge_env_def)
  then show ?thesis
    by (simp add: build_knowledge_embeddings_def example_render example_batches)
       (simp add: example_knowledge_env_def)
qed

text \<open>
  Claim C8 on the example store: the rebuild of an empty collection and the rebuild after
  it leave the same five documents.
\<close>

theorem rebuild_idempotent_witness:
  "build_knowledge_embeddings example_knowledge_env example_sources (Some []) =
     (Some example_documents, None) \<and>
   build_knowledge_embeddings example_knowledge_env example_sources (Some example_documents) =
     (Some example_documents, None) \<and>
   map doc_id example_documents =
     [''page__shop'', ''feature_0'', ''policy_returns'', ''product_7'', ''category_summer_wear'']"
proof -
  have contract: "clearing_store example_knowledge_env [] \<or>
      keeping_store example_knowledge_env (\<lambda>c. set (map doc_id c))"
    using example_store_keeps by simp
  have "map doc_id example_documents =
     [''page__shop'', ''feature_0'', ''policy_returns'', ''product_7'', ''category_summer_wear'']"
    by (simp add: example_documents_def)
  then show ?thesis
    using rebuild_idempotent [OF contract example_first_build] example_first_build
    by simp
qed

end
